theory Spec2Isabelle
  imports Complex_Main "HOL-Library.AList" "HOL-Library.Multiset"
begin

section \<open>Python floats\<close>

text \<open>
  Every number of the detection engine is a Python \<^verbatim>\<open>float\<close>, an IEEE-754 binary64
  value. A finite binary64 value is a rational number, and each arithmetic operation
  returns the exact rational result rounded to the nearest binary64 value, ties to the
  even significand. The model therefore computes in \<^typ>\<open>rat\<close> and applies a rounding
  function \<open>rnd\<close> after every operation of the source; \<open>rnd\<close> is a parameter of the
  functions below. Two roundings are of interest: \<open>rnd64\<close>, the rounding of binary64
  (what the interpreter does), and the identity \<open>\<lambda>x. x\<close> (exact arithmetic, the
  weighted average as a formula).

  The model has no infinity, no NaN and no negative zero. \<open>rnd64\<close> has the 53-bit
  significand and the subnormal range of binary64 and no largest exponent, whereas the
  interpreter returns \<^verbatim>\<open>inf\<close> for an operation whose rounded result is \<open>2 ^ 1024\<close>
  or beyond: \<open>rnd64\<close> is the interpreter's operation as long as the results stay below
  \<open>2 ^ 1024\<close> in magnitude. \<open>finite64\<close> below is the set of the finite floats, and a
  statement that depends on the magnitude of a binary64 result carries the hypothesis
  that keeps the operations in that range.

  The literals \<^verbatim>\<open>0.0\<close>, \<^verbatim>\<open>1\<close> and \<^verbatim>\<open>0.5\<close> are binary fractions and are written as they
  are; \<^verbatim>\<open>0.6\<close>, \<^verbatim>\<open>0.15\<close> and \<^verbatim>\<open>0.20\<close> are not, and are written \<open>rnd (3/5)\<close>,
  \<open>rnd (15/100)\<close> and \<open>rnd (20/100)\<close>: the value the parser stores.
\<close>

text \<open>Rounding a rational to the nearest integer, ties to the even one.\<close>

definition rhe :: "rat \<Rightarrow> int" where
  "rhe x = (let f = \<lfloor>x\<rfloor>; d = x - of_int f
            in if d < 1/2 then f else if 1/2 < d then f + 1
               else if even f then f else f + 1)"

text \<open>The binary exponent of a positive rational: \<open>2 powi ilog2 q \<le> q < 2 powi (ilog2 q + 1)\<close>.\<close>

function ilog2 :: "rat \<Rightarrow> int" where
  "ilog2 q = (if q \<le> 0 then 0
              else if 2 \<le> q then ilog2 (q / 2) + 1
              else if q < 1 then ilog2 (q * 2) - 1
              else 0)"
  by pat_completeness auto
termination
proof (relation "measure (\<lambda>q. if 1 \<le> q then nat \<lfloor>q\<rfloor> else nat \<lceil>1 / q\<rceil>)", goal_cases)
  case 1
  show ?case by simp
next
  case (2 q)
  then have "\<lfloor>q / 2\<rfloor> < \<lfloor>q\<rfloor>" "0 < \<lfloor>q\<rfloor>" by linarith+
  with 2 show ?case by simp
next
  case (3 q)
  then have q: "0 < q" "q < 1" by simp_all
  show ?case
  proof (cases "1 \<le> q * 2")
    case True
    then have "\<lfloor>q * 2\<rfloor> = 1" using q by linarith
    moreover have "1 < 1 / q" using q by simp
    then have "2 \<le> \<lceil>1 / q\<rceil>" by linarith
    ultimately show ?thesis using True q by simp
  next
    case False
    then have "2 < 1 / q" using q by (simp add: field_simps)
    moreover have "1 / (q * 2) = (1 / q) / 2" by simp
    ultimately have "\<lceil>1 / (q * 2)\<rceil> < \<lceil>1 / q\<rceil>" "0 < \<lceil>1 / q\<rceil>" by linarith+
    then show ?thesis using False q by simp
  qed
qed

declare ilog2.simps [simp del]

text \<open>
  Binary64 rounding of a positive rational: the significand has 53 bits, so the unit in
  the last place is \<open>2 powi (ilog2 q - 52)\<close>, and never less than \<open>2 powi (- 1074)\<close>,
  the spacing of the subnormal numbers.
\<close>

definition rnd_pos :: "rat \<Rightarrow> rat" where
  "rnd_pos q = (let e = max (ilog2 q - 52) (- 1074)
                in of_int (rhe (q / 2 powi e)) * 2 powi e)"

definition rnd64 :: "rat \<Rightarrow> rat" where
  "rnd64 q = (if q = 0 then 0 else if 0 < q then rnd_pos q else - rnd_pos (- q))"

text \<open>
  The values \<open>rnd64\<close> rounds to: an integer significand of at most 53 bits and an
  exponent from \<open>- 1074\<close> on, with no bound above. Below, \<open>rnd64\<close> is shown to
  return such a value (\<open>rnd64_binary64\<close>), one that no other such value is nearer to
  the argument than (\<open>rnd64_nearest\<close>), and to return its argument when that is such a
  value (\<open>rnd64_fix\<close>).
\<close>

definition binary64 :: "rat \<Rightarrow> bool" where
  "binary64 x \<longleftrightarrow> (\<exists>m e. \<bar>m\<bar> \<le> 2 ^ 53 \<and> - 1074 \<le> e \<and> x = of_int m * 2 powi e)"

text \<open>
  The finite values of a Python \<^verbatim>\<open>float\<close>: those of the values above that are below
  \<open>2 ^ 1024\<close> in magnitude (the largest is \<open>2 ^ 1024 - 2 ^ 971\<close>).
\<close>

definition finite64 :: "rat \<Rightarrow> bool" where
  "finite64 x \<longleftrightarrow> rnd64 x = x \<and> \<bar>x\<bar> < 2 ^ 1024"

text \<open>
  What the proofs below need of a rounding: it is monotone and leaves 0 and 1 alone.
  Both \<open>rnd64\<close> and the identity have these properties (\<open>rounding_rnd64\<close>,
  \<open>rounding_exact\<close>).
\<close>

definition rounding :: "(rat \<Rightarrow> rat) \<Rightarrow> bool" where
  "rounding rnd \<longleftrightarrow> (\<forall>x y. x \<le> y \<longrightarrow> rnd x \<le> rnd y) \<and> rnd 0 = 0 \<and> rnd 1 = 1"

section \<open>Data model\<close>

text \<open>
  The dictionary a detection method returns. The keys \<^verbatim>\<open>is_ai_generated\<close> and
  \<^verbatim>\<open>confidence_score\<close> are present in every dictionary the six methods of
  \<^verbatim>\<open>detection_engine.py\<close> build; every other key is optional, \<open>None\<close> when the key
  is absent. The value of \<^verbatim>\<open>ela_image_path\<close> is what \<^verbatim>\<open>extract_ela_features\<close> returned,
  a path or \<^verbatim>\<open>None\<close>: \<open>Some None\<close> is the key with the value \<^verbatim>\<open>None\<close>. A result
  counts as failed when it has the key \<^verbatim>\<open>error\<close>.
\<close>

record method_result =
  is_ai_generated :: bool
  confidence_score :: rat
  error :: "string option"
  anomalies :: "string list option"
  error_level_score :: "rat option"
  ela_image_path :: "string option option"
  pattern_score :: "rat option"
  smoothness_score :: "rat option"
  processing_time :: "rat option"

text \<open>
  A detection method takes the image path and returns its dictionary, or raises:
  \<open>Inl msg\<close> is an exception \<^verbatim>\<open>e\<close> with \<^verbatim>\<open>str(e) = msg\<close>.
\<close>

type_synonym detector = "string \<Rightarrow> string + method_result"

text \<open>
  \<^verbatim>\<open>self.detection_methods\<close>: a dictionary from the method name to its function and
  weight, iterated in insertion order. It is an association list whose names are
  distinct (a Python dictionary has no duplicate key).
\<close>

type_synonym registry = "(string \<times> detector \<times> rat) list"

record factor_entry =
  factor :: string
  weight :: rat
  contribution :: rat

text \<open>
  The \<^verbatim>\<open>results\<close> dictionary of \<^verbatim>\<open>detect\<close>. Its keys \<^verbatim>\<open>is_ai_generated\<close>,
  \<^verbatim>\<open>confidence_score\<close> and \<^verbatim>\<open>processing_time\<close> carry the prefix \<open>res_\<close> here, the
  names being taken by \<open>method_result\<close>.
\<close>

record results =
  res_is_ai_generated :: bool
  res_confidence_score :: rat
  res_processing_time :: rat
  method_results :: "(string \<times> method_result) list"
  contributing_factors :: "factor_entry list"

section \<open>The detection engine\<close>

text \<open>
  \<^verbatim>\<open>register_detection_methods\<close>: the six methods and their weights. The functions are
  the engine's bound methods; they are arguments here.
\<close>

definition register_detection_methods ::
  "(rat \<Rightarrow> rat) \<Rightarrow> detector \<Rightarrow> detector \<Rightarrow> detector \<Rightarrow> detector \<Rightarrow> detector \<Rightarrow> detector \<Rightarrow> registry" where
  "register_detection_methods rnd analyze_metadata analyze_ela analyze_prnu analyze_texture
       predict_with_vit predict_with_resnet =
     [(''metadata_analysis'', analyze_metadata, rnd (15/100)),
      (''ela_analysis'', analyze_ela, rnd (20/100)),
      (''prnu_analysis'', analyze_prnu, rnd (20/100)),
      (''texture_analysis'', analyze_texture, rnd (15/100)),
      (''vit_model'', predict_with_vit, rnd (15/100)),
      (''resnet_model'', predict_with_resnet, rnd (15/100))]"

text \<open>The dictionary \<^verbatim>\<open>detect\<close> stores for a method whose call raised.\<close>

definition failed_result :: "string \<Rightarrow> method_result" where
  "failed_result msg =
     \<lparr>is_ai_generated = False, confidence_score = 0, error = Some msg,
      anomalies = None, error_level_score = None, ela_image_path = None,
      pattern_score = None, smoothness_score = None, processing_time = None\<rparr>"

text \<open>One pass of the first loop of \<^verbatim>\<open>detect\<close>: the \<^verbatim>\<open>try\<close> around one method call.\<close>

definition run_method :: "detector \<Rightarrow> string \<Rightarrow> method_result" where
  "run_method f image_path =
     (case f image_path of Inr method_result \<Rightarrow> method_result | Inl msg \<Rightarrow> failed_result msg)"

text \<open>
  The first loop of \<^verbatim>\<open>detect\<close>, over the registry in its order. Assigning to a key of
  a dictionary replaces the value in place or appends the key: \<open>AList.update\<close>.
\<close>

fun run_methods :: "registry \<Rightarrow> string \<Rightarrow> (string \<times> method_result) list \<Rightarrow> (string \<times> method_result) list" where
  "run_methods [] image_path mr = mr"
| "run_methods ((method_name, f, w) # rest) image_path mr =
     run_methods rest image_path (AList.update method_name (run_method f image_path) mr)"

text \<open>
  The loop of \<^verbatim>\<open>aggregate_results\<close>; the accumulator is
  \<open>(weighted_sum, total_weight, contributing_factors)\<close>.
\<close>

fun aggregate_loop ::
  "(rat \<Rightarrow> rat) \<Rightarrow> registry \<Rightarrow> (string \<times> method_result) list \<Rightarrow>
   rat \<times> rat \<times> factor_entry list \<Rightarrow> rat \<times> rat \<times> factor_entry list" where
  "aggregate_loop rnd [] mr acc = acc"
| "aggregate_loop rnd ((method_name, f, w) # rest) mr (weighted_sum, total_weight, cf) =
     (case map_of mr method_name of
        None \<Rightarrow> aggregate_loop rnd rest mr (weighted_sum, total_weight, cf)
      | Some method_result \<Rightarrow>
          if error method_result = None then
            let confidence = confidence_score method_result;
                weighted_sum' = rnd (weighted_sum + rnd (w * confidence));
                total_weight' = rnd (total_weight + w);
                cf' = (if is_ai_generated method_result \<and> rnd (3/5) < confidence
                       then cf @ [\<lparr>factor = method_name, weight = w, contribution = confidence\<rparr>]
                       else cf)
            in aggregate_loop rnd rest mr (weighted_sum', total_weight', cf')
          else aggregate_loop rnd rest mr (weighted_sum, total_weight, cf))"

definition aggregate_results :: "(rat \<Rightarrow> rat) \<Rightarrow> registry \<Rightarrow> results \<Rightarrow> results" where
  "aggregate_results rnd detection_methods res =
     (case aggregate_loop rnd detection_methods (method_results res) (0, 0, []) of
        (weighted_sum, total_weight, cf) \<Rightarrow>
          let final_confidence = (if 0 < total_weight then rnd (weighted_sum / total_weight) else 0);
              is_ai = (1/2 < final_confidence)
          in res\<lparr>res_is_ai_generated := is_ai, res_confidence_score := final_confidence,
                 contributing_factors := cf\<rparr>)"

section \<open>Metadata projection\<close>

text \<open>
  The dictionary \<^verbatim>\<open>update_data\<close> that \<^verbatim>\<open>update_metadata\<close> builds and hands to the
  document store. A key that is set only under a condition is an optional field; the
  field \<open>ela_path\<close> is the key \<^verbatim>\<open>ela_image_path\<close>, a path or \<^verbatim>\<open>None\<close>. The
  field \<open>exif_data\<close> holds the value of \<^verbatim>\<open>update_data["exif_data"]["analysis_result"]\<close>;
  the three \<open>pixel_analysis_\<close> fields are the keys \<^verbatim>\<open>"pixel_analysis.ela_results"\<close>,
  \<^verbatim>\<open>"pixel_analysis.prnu_results"\<close> and \<^verbatim>\<open>"pixel_analysis.texture_analysis"\<close>.
\<close>

record aggregated_doc =
  agg_is_ai_generated :: bool
  agg_confidence_score :: rat
  agg_contributing_factors :: "factor_entry list"

record exif_doc =
  exif_is_suspicious :: bool
  exif_confidence :: rat
  exif_anomalies :: "string list"

record ela_doc =
  ela_error_level_score :: rat
  ela_is_suspicious :: bool
  ela_confidence :: rat
  ela_path :: "string option"

record prnu_doc =
  prnu_pattern_score :: rat
  prnu_is_suspicious :: bool
  prnu_confidence :: rat

record texture_doc =
  texture_smoothness_score :: rat
  texture_is_suspicious :: bool
  texture_confidence :: rat

record model_doc =
  model_name :: string
  model_version :: string
  model_is_ai_generated :: bool
  model_confidence :: rat
  model_processing_time :: rat

record update_doc =
  aggregated_results :: aggregated_doc
  exif_data :: "exif_doc option"
  pixel_analysis_ela_results :: "ela_doc option"
  pixel_analysis_prnu_results :: "prnu_doc option"
  pixel_analysis_texture_analysis :: "texture_doc option"
  model_results :: "model_doc list option"

text \<open>\<^verbatim>\<open>d.get(key, default)\<close> on an optional key.\<close>

definition get_default :: "'a option \<Rightarrow> 'a \<Rightarrow> 'a" where
  "get_default v d = (case v of None \<Rightarrow> d | Some x \<Rightarrow> x)"

text \<open>The two \<^verbatim>\<open>model_results.append\<close> blocks of \<^verbatim>\<open>update_metadata\<close>.\<close>

definition model_entries :: "(string \<times> method_result) list \<Rightarrow> model_doc list" where
  "model_entries mr =
     (case map_of mr ''vit_model'' of
        None \<Rightarrow> []
      | Some vit_result \<Rightarrow>
          [\<lparr>model_name = ''Vision Transformer'', model_version = ''1.0'',
            model_is_ai_generated = is_ai_generated vit_result,
            model_confidence = confidence_score vit_result,
            model_processing_time = get_default (processing_time vit_result) 0\<rparr>])
     @ (case map_of mr ''resnet_model'' of
        None \<Rightarrow> []
      | Some resnet_result \<Rightarrow>
          [\<lparr>model_name = ''ResNet50 NoDown'', model_version = ''1.0'',
            model_is_ai_generated = is_ai_generated resnet_result,
            model_confidence = confidence_score resnet_result,
            model_processing_time = get_default (processing_time resnet_result) 0\<rparr>])"

text \<open>The dictionary \<^verbatim>\<open>update_data\<close> as it is when \<^verbatim>\<open>update_metadata\<close> calls the store.\<close>

definition update_data :: "results \<Rightarrow> update_doc" where
  "update_data res =
     (let mr = method_results res
      in \<lparr>aggregated_results =
            \<lparr>agg_is_ai_generated = res_is_ai_generated res,
             agg_confidence_score = res_confidence_score res,
             agg_contributing_factors = contributing_factors res\<rparr>,
          exif_data =
            (case map_of mr ''metadata_analysis'' of
               None \<Rightarrow> None
             | Some metadata_result \<Rightarrow>
                 Some \<lparr>exif_is_suspicious = is_ai_generated metadata_result,
                       exif_confidence = confidence_score metadata_result,
                       exif_anomalies = get_default (anomalies metadata_result) []\<rparr>),
          pixel_analysis_ela_results =
            (case map_of mr ''ela_analysis'' of
               None \<Rightarrow> None
             | Some ela_result \<Rightarrow>
                 Some \<lparr>ela_error_level_score = get_default (error_level_score ela_result) 0,
                       ela_is_suspicious = is_ai_generated ela_result,
                       ela_confidence = confidence_score ela_result,
                       ela_path = get_default (ela_image_path ela_result) (Some [])\<rparr>),
          pixel_analysis_prnu_results =
            (case map_of mr ''prnu_analysis'' of
               None \<Rightarrow> None
             | Some prnu_result \<Rightarrow>
                 Some \<lparr>prnu_pattern_score = get_default (pattern_score prnu_result) 0,
                       prnu_is_suspicious = is_ai_generated prnu_result,
                       prnu_confidence = confidence_score prnu_result\<rparr>),
          pixel_analysis_texture_analysis =
            (case map_of mr ''texture_analysis'' of
               None \<Rightarrow> None
             | Some texture_result \<Rightarrow>
                 Some \<lparr>texture_smoothness_score = get_default (smoothness_score texture_result) 0,
                       texture_is_suspicious = is_ai_generated texture_result,
                       texture_confidence = confidence_score texture_result\<rparr>),
          model_results =
            (if model_entries mr = [] then None else Some (model_entries mr))\<rparr>)"

text \<open>
  \<^verbatim>\<open>MongoDBModel.update_detection_metadata\<close> is the document store, an argument here:
  it returns whether a document was modified, or raises (\<open>Inl\<close>).
\<close>

type_synonym store = "string \<Rightarrow> update_doc \<Rightarrow> string + bool"

definition update_metadata :: "store \<Rightarrow> string \<Rightarrow> results \<Rightarrow> string + bool" where
  "update_metadata update_detection_metadata metadata_id res =
     update_detection_metadata metadata_id (update_data res)"

text \<open>
  \<^verbatim>\<open>detect\<close>. The argument \<open>elapsed\<close> is the number of seconds between the two readings
  of the clock. \<^verbatim>\<open>metadata_id\<close> is \<^verbatim>\<open>None\<close> or a string, and the store is called when it
  is a non-empty string. An exception that reaches the outer handler is raised again:
  the result \<open>Inl\<close>.
\<close>

definition detect ::
  "(rat \<Rightarrow> rat) \<Rightarrow> registry \<Rightarrow> store \<Rightarrow> rat \<Rightarrow> string \<Rightarrow> string option \<Rightarrow> string + results" where
  "detect rnd detection_methods update_detection_metadata elapsed image_path metadata_id =
     (let res0 = \<lparr>res_is_ai_generated = False, res_confidence_score = 0,
                   res_processing_time = 0, method_results = [], contributing_factors = []\<rparr>;
          res1 = res0\<lparr>method_results := run_methods detection_methods image_path (method_results res0)\<rparr>;
          res2 = aggregate_results rnd detection_methods res1;
          res3 = res2\<lparr>res_processing_time := elapsed\<rparr>
      in case metadata_id of
           None \<Rightarrow> Inr res3
         | Some mid \<Rightarrow>
             if mid = [] then Inr res3
             else (case update_metadata update_detection_metadata mid res3 of
                     Inl msg \<Rightarrow> Inl msg
                   | Inr modified \<Rightarrow> Inr res3))"

section \<open>Summary generator\<close>

text \<open>
  \<^verbatim>\<open>generate_result_summary\<close> of \<^verbatim>\<open>endpoints.py\<close> takes any Python value and guards
  its whole body with \<^verbatim>\<open>try\<close>/\<^verbatim>\<open>except Exception\<close>. What raises there depends on the
  keys and on the types of the values, so its argument is modelled as a dynamically
  typed value; the keys of a dictionary are strings.
\<close>

datatype pyval =
    PNone
  | PBool bool
  | PInt int
  | PFloat rat
  | PStr string
  | PList "pyval list"
  | PDict "(string \<times> pyval) list"

datatype py_exception = KeyError string | TypeError | ValueError | AttributeError | OverflowError

text \<open>The truth value of an object in a condition.\<close>

fun truthy :: "pyval \<Rightarrow> bool" where
  "truthy PNone = False"
| "truthy (PBool b) = b"
| "truthy (PInt i) = (i \<noteq> 0)"
| "truthy (PFloat x) = (x \<noteq> 0)"
| "truthy (PStr s) = (s \<noteq> [])"
| "truthy (PList xs) = (xs \<noteq> [])"
| "truthy (PDict kvs) = (kvs \<noteq> [])"

text \<open>\<^verbatim>\<open>v[key]\<close> with a string key: only a dictionary can be subscripted by a string.\<close>

fun getitem :: "pyval \<Rightarrow> string \<Rightarrow> py_exception + pyval" where
  "getitem (PDict kvs) key = (case map_of kvs key of None \<Rightarrow> Inl (KeyError key) | Some v \<Rightarrow> Inr v)"
| "getitem v key = Inl TypeError"

text \<open>\<^verbatim>\<open>v.get(key, default)\<close>: only a dictionary has the method.\<close>

fun get_method :: "pyval \<Rightarrow> string \<Rightarrow> pyval \<Rightarrow> py_exception + pyval" where
  "get_method (PDict kvs) key d = (case map_of kvs key of None \<Rightarrow> Inr d | Some v \<Rightarrow> Inr v)"
| "get_method v key d = Inl AttributeError"

text \<open>
  The replacement field \<^verbatim>\<open>{v:.1%}\<close> of an f-string. The argument \<open>fmt\<close> is the
  formatting of a float with the format \<^verbatim>\<open>.1%\<close>; an integer or a Boolean is converted
  to a float first (an integer that rounds to \<open>2 ^ 1024\<close> or beyond is too large to
  convert), a string has no such format code, and the other types accept no format
  string at all.
\<close>

fun format_field :: "(rat \<Rightarrow> string) \<Rightarrow> (rat \<Rightarrow> rat) \<Rightarrow> pyval \<Rightarrow> py_exception + string" where
  "format_field fmt rnd (PFloat x) = Inr (fmt x)"
| "format_field fmt rnd (PInt i) =
     (if \<bar>rnd (of_int i)\<bar> < 2 ^ 1024 then Inr (fmt (rnd (of_int i))) else Inl OverflowError)"
| "format_field fmt rnd (PBool b) = Inr (fmt (if b then 1 else 0))"
| "format_field fmt rnd (PStr s) = Inl ValueError"
| "format_field fmt rnd v = Inl TypeError"

text \<open>\<^verbatim>\<open>1 - v\<close>.\<close>

fun one_minus :: "(rat \<Rightarrow> rat) \<Rightarrow> pyval \<Rightarrow> py_exception + pyval" where
  "one_minus rnd (PFloat x) = Inr (PFloat (rnd (1 - x)))"
| "one_minus rnd (PInt i) = Inr (PInt (1 - i))"
| "one_minus rnd (PBool b) = Inr (PInt (1 - (if b then 1 else 0)))"
| "one_minus rnd v = Inl TypeError"

text \<open>The items a \<^verbatim>\<open>for\<close> loop takes from an object.\<close>

fun iterate :: "pyval \<Rightarrow> py_exception + pyval list" where
  "iterate (PList xs) = Inr xs"
| "iterate (PDict kvs) = Inr (map (\<lambda>kv. PStr (fst kv)) kvs)"
| "iterate (PStr s) = Inr (map (\<lambda>c. PStr [c]) s)"
| "iterate v = Inl TypeError"

text \<open>The \<^verbatim>\<open>if\<close>/\<^verbatim>\<open>elif\<close> chain on \<^verbatim>\<open>factor_name\<close>, in its order.\<close>

definition factor_phrase :: "pyval \<Rightarrow> string option" where
  "factor_phrase factor_name =
     (if factor_name = PStr ''metadata_analysis'' then Some ''suspicious metadata patterns''
      else if factor_name = PStr ''ela_analysis'' then Some ''error level analysis''
      else if factor_name = PStr ''prnu_analysis'' then Some ''photo response non-uniformity''
      else if factor_name = PStr ''texture_analysis'' then Some ''unnatural texture smoothness''
      else if factor_name = PStr ''vit_model'' then Some ''Vision Transformer model detection''
      else if factor_name = PStr ''resnet_model'' then Some ''ResNet model detection''
      else None)"

text \<open>
  The loop over \<^verbatim>\<open>contributing_factors\<close>; the accumulator is \<^verbatim>\<open>factor_descriptions\<close>.
  Both keys are read before the name is compared, and the contribution is formatted only
  in a branch that matches.
\<close>

fun describe_factors ::
  "(rat \<Rightarrow> string) \<Rightarrow> (rat \<Rightarrow> rat) \<Rightarrow> pyval list \<Rightarrow> string list \<Rightarrow> py_exception + string list" where
  "describe_factors fmt rnd [] factor_descriptions = Inr factor_descriptions"
| "describe_factors fmt rnd (x # rest) factor_descriptions =
     (case getitem x ''factor'' of
        Inl e \<Rightarrow> Inl e
      | Inr factor_name \<Rightarrow>
          (case getitem x ''contribution'' of
             Inl e \<Rightarrow> Inl e
           | Inr c \<Rightarrow>
               (case factor_phrase factor_name of
                  None \<Rightarrow> describe_factors fmt rnd rest factor_descriptions
                | Some phrase \<Rightarrow>
                    (case format_field fmt rnd c of
                       Inl e \<Rightarrow> Inl e
                     | Inr p \<Rightarrow>
                         describe_factors fmt rnd rest
                           (factor_descriptions @ [phrase @ '' ('' @ p @ '' confidence)''])))))"

text \<open>\<^verbatim>\<open>sep.join(xs)\<close>.\<close>

fun join :: "string \<Rightarrow> string list \<Rightarrow> string" where
  "join sep [] = []"
| "join sep [x] = x"
| "join sep (x # y # ys) = x @ sep @ join sep (y # ys)"

text \<open>The body of the \<^verbatim>\<open>try\<close>: the summary, or the exception that leaves it.\<close>

definition render :: "(rat \<Rightarrow> string) \<Rightarrow> (rat \<Rightarrow> rat) \<Rightarrow> pyval \<Rightarrow> py_exception + string" where
  "render fmt rnd detection_results =
     (case getitem detection_results ''is_ai_generated'' of
        Inl e \<Rightarrow> Inl e
      | Inr is_ai \<Rightarrow>
     (case getitem detection_results ''confidence_score'' of
        Inl e \<Rightarrow> Inl e
      | Inr confidence \<Rightarrow>
     (case get_method detection_results ''contributing_factors'' (PList []) of
        Inl e \<Rightarrow> Inl e
      | Inr cf \<Rightarrow>
          if truthy is_ai then
            (case format_field fmt rnd confidence of
               Inl e \<Rightarrow> Inl e
             | Inr p \<Rightarrow>
                 let summary = ''This image is likely AI-generated with '' @ p @ '' confidence. ''
                 in if truthy cf then
                      (case iterate cf of
                         Inl e \<Rightarrow> Inl e
                       | Inr items \<Rightarrow>
                           (case describe_factors fmt rnd items [] of
                              Inl e \<Rightarrow> Inl e
                            | Inr factor_descriptions \<Rightarrow>
                                Inr (summary @ ''Key indicators include: ''
                                       @ join '', '' factor_descriptions @ ''.'')))
                    else Inr summary)
          else
            (case one_minus rnd confidence of
               Inl e \<Rightarrow> Inl e
             | Inr v \<Rightarrow>
                 (case format_field fmt rnd v of
                    Inl e \<Rightarrow> Inl e
                  | Inr p \<Rightarrow>
                      Inr (''This image appears to be authentic with '' @ p @ '' confidence. ''
                             @ ''No significant indicators of AI generation were detected.''))))))"

definition generate_result_summary :: "(rat \<Rightarrow> string) \<Rightarrow> (rat \<Rightarrow> rat) \<Rightarrow> pyval \<Rightarrow> string" where
  "generate_result_summary fmt rnd detection_results =
     (case render fmt rnd detection_results of
        Inr summary \<Rightarrow> summary
      | Inl e \<Rightarrow> ''Detection completed, but summary generation failed.'')"

subsection \<open>The format \<^verbatim>\<open>.1%\<close>\<close>

text \<open>
  Python's \<^verbatim>\<open>format(x, ".1%")\<close> for a float: \<^verbatim>\<open>x\<close> is multiplied by 100 as a float,
  and the product is written in decimal with one digit after the point, correctly rounded
  (ties to even), with a percent sign; a product that overflows is written \<^verbatim>\<open>inf\<close>. This
  is the \<open>fmt\<close> the statements are evaluated with.
\<close>

definition digit :: "nat \<Rightarrow> char" where
  "digit d = ''0123456789'' ! d"

function show_nat :: "nat \<Rightarrow> string" where
  "show_nat n = (if n < 10 then [digit n] else show_nat (n div 10) @ [digit (n mod 10)])"
  by pat_completeness auto
termination
  by (relation "measure (\<lambda>n. n)") auto

declare show_nat.simps [simp del]

definition format_percent :: "(rat \<Rightarrow> rat) \<Rightarrow> rat \<Rightarrow> string" where
  "format_percent rnd x =
     (let y = rnd (x * 100); n = rhe (\<bar>y\<bar> * 10)
      in (if y < 0 then ''-'' else [])
         @ (if 2 ^ 1024 \<le> \<bar>y\<bar> then ''inf''
            else show_nat (nat (n div 10)) @ ''.'' @ [digit (nat (n mod 10))])
         @ ''%'')"

subsection \<open>The result dictionary as a Python value\<close>

text \<open>
  The dictionaries of the engine as the values \<^verbatim>\<open>generate_result_summary\<close> receives
  from \<^verbatim>\<open>process_detection\<close>: an optional key is present when its field is not \<open>None\<close>.
\<close>

definition opt_key :: "string \<Rightarrow> ('a \<Rightarrow> pyval) \<Rightarrow> 'a option \<Rightarrow> (string \<times> pyval) list" where
  "opt_key key f v = (case v of None \<Rightarrow> [] | Some x \<Rightarrow> [(key, f x)])"

definition py_of_method_result :: "method_result \<Rightarrow> pyval" where
  "py_of_method_result r =
     PDict ([(''is_ai_generated'', PBool (is_ai_generated r)),
             (''confidence_score'', PFloat (confidence_score r))]
            @ opt_key ''error'' PStr (error r)
            @ opt_key ''anomalies'' (\<lambda>xs. PList (map PStr xs)) (anomalies r)
            @ opt_key ''error_level_score'' PFloat (error_level_score r)
            @ opt_key ''ela_image_path'' (\<lambda>p. case p of None \<Rightarrow> PNone | Some path \<Rightarrow> PStr path)
                (ela_image_path r)
            @ opt_key ''pattern_score'' PFloat (pattern_score r)
            @ opt_key ''smoothness_score'' PFloat (smoothness_score r)
            @ opt_key ''processing_time'' PFloat (processing_time r))"

definition py_of_factor :: "factor_entry \<Rightarrow> pyval" where
  "py_of_factor x =
     PDict [(''factor'', PStr (factor x)), (''weight'', PFloat (weight x)),
            (''contribution'', PFloat (contribution x))]"

definition py_of_results :: "results \<Rightarrow> pyval" where
  "py_of_results res =
     PDict [(''is_ai_generated'', PBool (res_is_ai_generated res)),
            (''confidence_score'', PFloat (res_confidence_score res)),
            (''processing_time'', PFloat (res_processing_time res)),
            (''method_results'',
               PDict (map (\<lambda>kv. (fst kv, py_of_method_result (snd kv))) (method_results res))),
            (''contributing_factors'', PList (map py_of_factor (contributing_factors res)))]"

section \<open>Notions used in the statements\<close>

text \<open>
  The document store takes the update: \<^verbatim>\<open>metadata_id\<close> is \<^verbatim>\<open>None\<close> or empty (the store
  is not called), or the store does not raise for this identifier.
\<close>

definition store_accepts :: "store \<Rightarrow> string option \<Rightarrow> bool" where
  "store_accepts update_detection_metadata metadata_id \<longleftrightarrow>
     (case metadata_id of
        None \<Rightarrow> True
      | Some mid \<Rightarrow> mid = [] \<or> (\<forall>doc. \<exists>modified. update_detection_metadata mid doc = Inr modified))"

text \<open>The dictionary \<^verbatim>\<open>detect\<close> returns, when it returns (\<open>detect_returns\<close> below).\<close>

definition detection_results :: "(rat \<Rightarrow> rat) \<Rightarrow> registry \<Rightarrow> rat \<Rightarrow> string \<Rightarrow> results" where
  "detection_results rnd detection_methods elapsed image_path =
     (aggregate_results rnd detection_methods
        \<lparr>res_is_ai_generated = False, res_confidence_score = 0, res_processing_time = 0,
         method_results = run_methods detection_methods image_path [],
         contributing_factors = []\<rparr>)
     \<lparr>res_processing_time := elapsed\<rparr>"

text \<open>
  The statements speak of the detector outcomes of a run: \<open>outcomes\<close> lists, in registry
  order, each registered method with its weight and the dictionary \<^verbatim>\<open>detect\<close> stores for
  it; \<open>non_failed\<close> keeps those without the key \<^verbatim>\<open>error\<close>. \<open>successful\<close> is the same
  selection made from a given \<^verbatim>\<open>method_results\<close> dictionary, as \<^verbatim>\<open>aggregate_results\<close>
  sees it. \<open>weighted_sum\<close> and \<open>total_weight\<close> are the sums \<open>S\<close> and \<open>W\<close> of the
  specification, added up from the left in the given rounding, and \<open>weighted_average\<close> is
  \<open>S / W\<close>, or 0 when \<open>W\<close> is not positive. \<open>significant\<close> selects the entries that
  report an AI-generated image with a confidence above the literal \<^verbatim>\<open>0.6\<close>.
\<close>

definition outcomes :: "registry \<Rightarrow> string \<Rightarrow> (string \<times> rat \<times> method_result) list" where
  "outcomes detection_methods image_path =
     map (\<lambda>(n, f, w). (n, w, run_method f image_path)) detection_methods"

definition non_failed :: "registry \<Rightarrow> string \<Rightarrow> (string \<times> rat \<times> method_result) list" where
  "non_failed detection_methods image_path =
     filter (\<lambda>(n, w, r). error r = None) (outcomes detection_methods image_path)"

definition successful :: "registry \<Rightarrow> (string \<times> method_result) list \<Rightarrow> (string \<times> rat \<times> method_result) list" where
  "successful detection_methods mr =
     List.map_filter
       (\<lambda>(n, f, w). case map_of mr n of
                       None \<Rightarrow> None
                     | Some r \<Rightarrow> if error r = None then Some (n, w, r) else None)
       detection_methods"

text \<open>
  \<open>returned\<close> lists, in registry order, the registered methods whose call returned a
  dictionary without the key \<^verbatim>\<open>error\<close>, each with its weight and that dictionary.
\<close>

definition returned :: "registry \<Rightarrow> string \<Rightarrow> (string \<times> rat \<times> method_result) list" where
  "returned detection_methods image_path =
     List.map_filter
       (\<lambda>(n, f, w). case f image_path of
                       Inl msg \<Rightarrow> None
                     | Inr r \<Rightarrow> if error r = None then Some (n, w, r) else None)
       detection_methods"

definition scores :: "(string \<times> rat \<times> method_result) list \<Rightarrow> (rat \<times> rat) list" where
  "scores xs = map (\<lambda>(n, w, r). (w, confidence_score r)) xs"

definition weights :: "(string \<times> rat \<times> method_result) list \<Rightarrow> rat list" where
  "weights xs = map (\<lambda>(n, w, r). w) xs"

definition weighted_sum :: "(rat \<Rightarrow> rat) \<Rightarrow> (rat \<times> rat) list \<Rightarrow> rat" where
  "weighted_sum rnd wcs = foldl (\<lambda>s (w, c). rnd (s + rnd (w * c))) 0 wcs"

definition total_weight :: "(rat \<Rightarrow> rat) \<Rightarrow> rat list \<Rightarrow> rat" where
  "total_weight rnd ws = foldl (\<lambda>t w. rnd (t + w)) 0 ws"

definition weighted_average :: "(rat \<Rightarrow> rat) \<Rightarrow> (string \<times> rat \<times> method_result) list \<Rightarrow> rat" where
  "weighted_average rnd xs =
     (if 0 < total_weight rnd (weights xs)
      then rnd (weighted_sum rnd (scores xs) / total_weight rnd (weights xs)) else 0)"

definition significant :: "(rat \<Rightarrow> rat) \<Rightarrow> (string \<times> rat \<times> method_result) list \<Rightarrow> factor_entry list" where
  "significant rnd xs =
     map (\<lambda>(n, w, r). \<lparr>factor = n, weight = w, contribution = confidence_score r\<rparr>)
       (filter (\<lambda>(n, w, r). is_ai_generated r \<and> rnd (3/5) < confidence_score r) xs)"

text \<open>Detection methods for the examples: one that returns a verdict and a confidence, one that raises.\<close>

definition reports :: "bool \<Rightarrow> rat \<Rightarrow> detector" where
  "reports d c = (\<lambda>image_path.
     Inr \<lparr>is_ai_generated = d, confidence_score = c, error = None,
          anomalies = None, error_level_score = None, ela_image_path = None,
          pattern_score = None, smoothness_score = None, processing_time = None\<rparr>)"

definition raises :: "string \<Rightarrow> detector" where
  "raises msg = (\<lambda>image_path. Inl msg)"

text \<open>A document store that takes every update.\<close>

definition accepting_store :: store where
  "accepting_store = (\<lambda>mid doc. Inr True)"

section \<open>Properties of the rounding\<close>

lemma rhe_bounds: "\<lfloor>x\<rfloor> \<le> rhe x" "rhe x \<le> \<lfloor>x\<rfloor> + 1"
  by (simp_all add: rhe_def Let_def)

lemma rhe_mono: "x \<le> y \<Longrightarrow> rhe x \<le> rhe y"
proof -
  assume xy: "x \<le> y"
  then have "\<lfloor>x\<rfloor> \<le> \<lfloor>y\<rfloor>" by (rule floor_mono)
  then consider "\<lfloor>x\<rfloor> = \<lfloor>y\<rfloor>" | "\<lfloor>x\<rfloor> + 1 \<le> \<lfloor>y\<rfloor>" by linarith
  then show ?thesis
  proof cases
    case 1
    with xy show ?thesis by (auto simp: rhe_def Let_def)
  next
    case 2
    then show ?thesis using rhe_bounds(2) [of x] rhe_bounds(1) [of y] by linarith
  qed
qed

lemma ilog2_bounds:
  "0 < q \<Longrightarrow> 2 powi ilog2 q \<le> q \<and> q < 2 powi (ilog2 q + 1)"
proof (induction q rule: ilog2.induct)
  case (1 q)
  show ?case
  proof (cases "2 \<le> q")
    case True
    with 1 have IH: "2 powi ilog2 (q / 2) \<le> q / 2 \<and> q / 2 < 2 powi (ilog2 (q / 2) + 1)" by simp
    have e: "ilog2 q = ilog2 (q / 2) + 1" using True by (subst ilog2.simps) simp
    show ?thesis using IH unfolding e by (simp add: power_int_add field_simps)
  next
    case False
    show ?thesis
    proof (cases "q < 1")
      case True
      with 1 False have IH: "2 powi ilog2 (q * 2) \<le> q * 2 \<and> q * 2 < 2 powi (ilog2 (q * 2) + 1)"
        by simp
      have e: "ilog2 q = ilog2 (q * 2) - 1" using True False 1 by (subst ilog2.simps) simp
      show ?thesis using IH unfolding e by (simp add: power_int_add power_int_diff field_simps)
    next
      case F2: False
      have e: "ilog2 q = 0" using F2 False 1 by (subst ilog2.simps) simp
      show ?thesis using F2 False unfolding e by simp
    qed
  qed
qed

lemma pow2_mono: "a \<le> b \<Longrightarrow> (2::rat) powi a \<le> 2 powi b"
  by (rule power_int_increasing) simp_all

lemma ilog2_mono:
  assumes "0 < p" "p \<le> q"
  shows "ilog2 p \<le> ilog2 q"
proof (rule ccontr)
  assume "\<not> ilog2 p \<le> ilog2 q"
  then have "ilog2 q + 1 \<le> ilog2 p" by simp
  then have "(2::rat) powi (ilog2 q + 1) \<le> 2 powi ilog2 p" by (rule pow2_mono)
  moreover have "q < 2 powi (ilog2 q + 1)" using ilog2_bounds [of q] assms by simp
  moreover have "2 powi ilog2 p \<le> p" using ilog2_bounds [of p] assms by simp
  ultimately show False using assms by linarith
qed

lemma rnd_pos_nonneg: "0 < q \<Longrightarrow> 0 \<le> rnd_pos q"
proof -
  assume "0 < q"
  define e where "e = max (ilog2 q - 52) (- 1074)"
  have "0 \<le> q / 2 powi e" using \<open>0 < q\<close> by simp
  then have "0 \<le> \<lfloor>q / 2 powi e\<rfloor>" by simp
  then have "0 \<le> rhe (q / 2 powi e)" using rhe_bounds(1) [of "q / 2 powi e"] by linarith
  then show ?thesis by (simp add: rnd_pos_def Let_def e_def)
qed

text \<open>
  Rounding is monotone. Within one binade it is the monotonicity of \<open>rhe\<close>; across
  binades the power of two between them separates the two results.
\<close>

lemma rnd_pos_mono:
  assumes "0 < p" "p \<le> q"
  shows "rnd_pos p \<le> rnd_pos q"
proof -
  define ep where "ep = max (ilog2 p - 52) (- 1074)"
  define eq where "eq = max (ilog2 q - 52) (- 1074)"
  have q: "0 < q" using assms by simp
  have le: "ep \<le> eq" using ilog2_mono [OF assms] by (simp add: ep_def eq_def)
  have P: "rnd_pos p = of_int (rhe (p / 2 powi ep)) * 2 powi ep"
    by (simp add: rnd_pos_def Let_def ep_def)
  have Q: "rnd_pos q = of_int (rhe (q / 2 powi eq)) * 2 powi eq"
    by (simp add: rnd_pos_def Let_def eq_def)
  show ?thesis
  proof (cases "ep = eq")
    case True
    have "p / 2 powi eq \<le> q / 2 powi eq" using assms by (simp add: divide_right_mono)
    then have "rhe (p / 2 powi eq) \<le> rhe (q / 2 powi eq)" by (rule rhe_mono)
    then have "(of_int (rhe (p / 2 powi eq)) :: rat) \<le> of_int (rhe (q / 2 powi eq))" by simp
    then show ?thesis unfolding P Q True by (simp add: mult_right_mono)
  next
    case False
    with le have lt: "ep + 1 \<le> eq" by simp
    then have eq_def': "eq = ilog2 q - 52" by (simp add: eq_def ep_def)
    have "ilog2 p - 52 \<le> ep" by (simp add: ep_def)
    then have "(2::rat) powi (ilog2 p + 1) \<le> 2 powi (ep + 53)" by (intro pow2_mono) simp
    then have "p < 2 powi (ep + 53)" using ilog2_bounds [OF assms(1)] by linarith
    then have "p / 2 powi ep < 2 ^ 53" by (simp add: power_int_add field_simps)
    then have "p / 2 powi ep < of_int (2 ^ 53)" by simp
    then have "\<lfloor>p / 2 powi ep\<rfloor> < 2 ^ 53" by (simp only: floor_less_iff)
    then have "rhe (p / 2 powi ep) \<le> 2 ^ 53" using rhe_bounds(2) [of "p / 2 powi ep"] by linarith
    then have "(of_int (rhe (p / 2 powi ep)) :: rat) \<le> of_int (2 ^ 53)" by (simp only: of_int_le_iff)
    then have "rnd_pos p \<le> 2 ^ 53 * 2 powi ep" unfolding P by (simp add: mult_right_mono)
    also have "\<dots> = 2 powi (ep + 53)" by (simp add: power_int_add)
    also have "\<dots> \<le> 2 powi (eq + 52)" using lt by (intro pow2_mono) simp
    finally have A: "rnd_pos p \<le> 2 powi (eq + 52)" .
    have "2 powi (eq + 52) \<le> q" using ilog2_bounds [OF q] by (simp add: eq_def')
    then have "of_int (2 ^ 52) \<le> q / 2 powi eq" by (simp add: power_int_add field_simps)
    then have "2 ^ 52 \<le> \<lfloor>q / 2 powi eq\<rfloor>" by (simp only: le_floor_iff)
    then have "2 ^ 52 \<le> rhe (q / 2 powi eq)" using rhe_bounds(1) [of "q / 2 powi eq"] by linarith
    then have "(of_int (2 ^ 52) :: rat) \<le> of_int (rhe (q / 2 powi eq))" by (simp only: of_int_le_iff)
    then have "2 ^ 52 * 2 powi eq \<le> rnd_pos q" unfolding Q by (simp add: mult_right_mono)
    moreover have "2 ^ 52 * 2 powi eq = (2::rat) powi (eq + 52)" by (simp add: power_int_add)
    ultimately show ?thesis using A by linarith
  qed
qed

lemma rnd64_mono: "p \<le> q \<Longrightarrow> rnd64 p \<le> rnd64 q"
proof -
  assume pq: "p \<le> q"
  consider "0 < p" | "p = 0" | "p < 0" "q < 0" | "p < 0" "0 \<le> q" by linarith
  then show ?thesis
  proof cases
    case 1
    then show ?thesis using pq rnd_pos_mono [of p q] by (simp add: rnd64_def)
  next
    case 2
    then show ?thesis using pq rnd_pos_nonneg [of q] by (auto simp: rnd64_def)
  next
    case 3
    then show ?thesis using pq rnd_pos_mono [of "- q" "- p"] by (simp add: rnd64_def)
  next
    case 4
    then show ?thesis using rnd_pos_nonneg [of "- p"] rnd_pos_nonneg [of q]
      by (auto simp: rnd64_def)
  qed
qed

lemma rnd64_1: "rnd64 1 = 1"
  by code_simp

lemma rounding_rnd64: "rounding rnd64"
  by (simp add: rounding_def rnd64_mono rnd64_1) (simp add: rnd64_def)

lemma rounding_exact: "rounding (\<lambda>x. x)"
  by (simp add: rounding_def)

subsection \<open>Evaluating a rounding\<close>

text \<open>
  A certificate for one rounding: \<open>q\<close> lies in the binade whose unit in the last place
  is \<open>1 / 2 ^ k\<close>, and \<open>m\<close> is the integer nearest to \<open>q * 2 ^ k\<close> (the even one of
  two). It turns each binary64 operation of an example into comparisons of numerals.
\<close>

lemma rhe_nearest:
  assumes "\<bar>x - of_int m\<bar> < 1/2 \<or> \<bar>x - of_int m\<bar> = 1/2 \<and> even m"
  shows "rhe x = m"
proof (cases "of_int m \<le> x")
  case True
  with assms have "\<lfloor>x\<rfloor> = m" by (auto simp: floor_unique)
  with assms True show ?thesis by (auto simp: rhe_def Let_def)
next
  case False
  with assms have "\<lfloor>x\<rfloor> = m - 1" by (auto simp: floor_unique)
  with assms False show ?thesis by (auto simp: rhe_def Let_def)
qed

lemma ilog2_unique:
  assumes "2 powi k \<le> q" "q < 2 powi (k + 1)"
  shows "ilog2 q = k"
proof -
  have q: "0 < q" using assms(1) by (rule less_le_trans [rotated]) simp
  note b = ilog2_bounds [OF q]
  have "\<not> ilog2 q < k"
  proof
    assume "ilog2 q < k"
    then have "(2::rat) powi (ilog2 q + 1) \<le> 2 powi k" by (intro pow2_mono) simp
    with b assms show False by linarith
  qed
  moreover have "\<not> k < ilog2 q"
  proof
    assume "k < ilog2 q"
    then have "(2::rat) powi (k + 1) \<le> 2 powi ilog2 q" by (intro pow2_mono) simp
    with b assms show False by linarith
  qed
  ultimately show ?thesis by simp
qed

lemma rnd64_cert:
  assumes "2 ^ 52 \<le> q * 2 ^ k" "q * 2 ^ k < 2 ^ 53" "k \<le> 1074"
    and "\<bar>q * 2 ^ k - of_int m\<bar> < 1/2 \<or> \<bar>q * 2 ^ k - of_int m\<bar> = 1/2 \<and> even m"
  shows "rnd64 q = of_int m / 2 ^ k"
proof -
  have p: "(2::rat) powi (- int k) = 1 / 2 ^ k"
    by (simp add: power_int_minus field_simps)
  have "0 < q * 2 ^ k" using assms(1) by (rule less_le_trans [rotated]) simp
  then have q: "0 < q" by (simp add: zero_less_mult_iff)
  have "2 powi (52 - int k) \<le> q" "q < 2 powi (52 - int k + 1)"
    using assms(1,2) by (simp_all add: power_int_diff power_int_add field_simps)
  then have "ilog2 q = 52 - int k" by (rule ilog2_unique)
  then have e: "max (ilog2 q - 52) (- 1074) = - int k" using assms(3) by simp
  have "q / 2 powi (- int k) = q * 2 ^ k" by (simp add: p)
  then have "rhe (q / 2 powi (- int k)) = m" using assms(4) by (simp add: rhe_nearest)
  then have "rnd_pos q = of_int m / 2 ^ k" by (simp add: rnd_pos_def e p)
  then show ?thesis using q by (simp add: rnd64_def)
qed

text \<open>Ties go to the even significand: the two floats next above 1 are \<open>1 + 1 / 2 ^ 52\<close> and \<open>1 + 1 / 2 ^ 51\<close>.\<close>

lemma rnd64_ties:
  "rnd64 (1 + 1 / 2 ^ 53) = 1"
  "rnd64 (1 + 3 / 2 ^ 53) = 1 + 1 / 2 ^ 51"
  using rnd64_cert [of "1 + 1 / 2 ^ 53" 52 "2 ^ 52"]
    rnd64_cert [of "1 + 3 / 2 ^ 53" 52 "2 ^ 52 + 2"]
  by simp_all

subsection \<open>The result is the nearest value of the format\<close>

lemma rhe_of_int: "rhe (of_int n) = n"
  by (simp add: rhe_def)

lemma rhe_closest: "\<bar>of_int (rhe x) - x\<bar> \<le> \<bar>of_int z - x\<bar>"
proof (cases "z \<le> \<lfloor>x\<rfloor>")
  case True
  then have "of_int z \<le> (of_int \<lfloor>x\<rfloor> :: rat)" by simp
  then show ?thesis by (auto simp: rhe_def Let_def)
next
  case False
  then have "\<lfloor>x\<rfloor> + 1 \<le> z" by simp
  then have "(of_int (\<lfloor>x\<rfloor> + 1) :: rat) \<le> of_int z" by (simp only: of_int_le_iff)
  then have "of_int \<lfloor>x\<rfloor> + 1 \<le> (of_int z :: rat)" by simp
  then show ?thesis by (auto simp: rhe_def Let_def) linarith+
qed

lemma rnd_pos_repr:
  assumes "0 < q"
  defines "e \<equiv> max (ilog2 q - 52) (- 1074)"
  defines "m \<equiv> rhe (q / 2 powi e)"
  shows "rnd_pos q = of_int m * 2 powi e" "0 \<le> m" "m \<le> 2 ^ 53" "- 1074 \<le> e"
proof -
  show "rnd_pos q = of_int m * 2 powi e" by (simp add: rnd_pos_def Let_def e_def m_def)
  have "0 \<le> q / 2 powi e" using assms(1) by simp
  then have "0 \<le> \<lfloor>q / 2 powi e\<rfloor>" by simp
  then show "0 \<le> m" unfolding m_def using rhe_bounds(1) [of "q / 2 powi e"] by linarith
  have "ilog2 q - 52 \<le> e" by (simp add: e_def)
  then have "(2::rat) powi (ilog2 q + 1) \<le> 2 powi (e + 53)" by (intro pow2_mono) simp
  then have "q < 2 powi (e + 53)" using ilog2_bounds [OF assms(1)] by linarith
  then have "q / 2 powi e < 2 ^ 53" by (simp add: power_int_add field_simps)
  then have "q / 2 powi e < of_int (2 ^ 53)" by simp
  then have "\<lfloor>q / 2 powi e\<rfloor> < 2 ^ 53" by (simp only: floor_less_iff)
  then show "m \<le> 2 ^ 53" unfolding m_def using rhe_bounds(2) [of "q / 2 powi e"] by linarith
  show "- 1074 \<le> e" by (simp add: e_def)
qed

lemma binary64_uminus: "binary64 (- x) = binary64 x"
proof -
  have "binary64 (- x)" if "binary64 x" for x
  proof -
    from that obtain m e where "\<bar>m\<bar> \<le> 2 ^ 53" "- 1074 \<le> e" "x = of_int m * 2 powi e"
      by (auto simp: binary64_def)
    then have "\<bar>- m\<bar> \<le> 2 ^ 53 \<and> - 1074 \<le> e \<and> - x = of_int (- m) * 2 powi e" by simp
    then show ?thesis unfolding binary64_def by blast
  qed
  from this [of x] this [of "- x"] show ?thesis by auto
qed

lemma rnd64_uminus: "rnd64 (- q) = - rnd64 q"
  by (simp add: rnd64_def)

lemma rnd64_binary64: "binary64 (rnd64 q)"
proof -
  have pos: "binary64 (rnd_pos q)" if "0 < q" for q
  proof -
    from rnd_pos_repr [OF that] show ?thesis unfolding binary64_def
      by (intro exI [of _ "rhe (q / 2 powi max (ilog2 q - 52) (- 1074))"]
            exI [of _ "max (ilog2 q - 52) (- 1074)"]) simp
  qed
  have zero: "binary64 0" unfolding binary64_def by (intro exI [of _ 0]) simp
  show ?thesis
    using pos [of q] pos [of "- q"] zero by (auto simp: rnd64_def binary64_uminus)
qed

lemma rnd_pos_fix:
  assumes "0 < m" "m \<le> 2 ^ 53" "- 1074 \<le> e"
  shows "rnd_pos (of_int m * 2 powi e) = of_int m * 2 powi e"
proof -
  let ?x = "of_int m * (2::rat) powi e"
  have x: "0 < ?x" using assms(1) by simp
  define k where "k = max (ilog2 ?x - 52) (- 1074)"
  have R: "rnd_pos ?x = of_int (rhe (?x / 2 powi k)) * 2 powi k"
    by (simp add: rnd_pos_def Let_def k_def)
  show ?thesis
  proof (cases "m = 2 ^ 53")
    case True
    then have xe: "?x = 2 powi (e + 53)" by (simp add: power_int_add)
    have "ilog2 ?x = e + 53" unfolding xe by (rule ilog2_unique) (simp_all add: power_int_add)
    then have k: "k = e + 1" using assms(3) by (simp add: k_def)
    have "?x / 2 powi k = of_int (2 ^ 52)" unfolding xe k by (simp add: power_int_add)
    then have "rhe (?x / 2 powi k) = 2 ^ 52" by (simp only: rhe_of_int)
    then show ?thesis unfolding R by (simp add: k True power_int_add)
  next
    case False
    with assms(2) have "m < 2 ^ 53" by simp
    then have "m + 1 \<le> 2 ^ 53" by simp
    then have "(of_int m :: rat) < of_int (2 ^ 53)" by (simp only: of_int_less_iff)
    then have "?x < 2 ^ 53 * 2 powi e" by simp
    then have "?x < 2 powi (e + 53)" by (simp add: power_int_add)
    moreover have "2 powi ilog2 ?x \<le> ?x" using ilog2_bounds [OF x] by simp
    ultimately have lt: "(2::rat) powi ilog2 ?x < 2 powi (e + 53)" by linarith
    have "ilog2 ?x < e + 53"
    proof (rule ccontr)
      assume "\<not> ilog2 ?x < e + 53"
      then have "(2::rat) powi (e + 53) \<le> 2 powi ilog2 ?x" by (intro pow2_mono) simp
      with lt show False by simp
    qed
    then have ke: "k \<le> e" using assms(3) by (simp add: k_def)
    then obtain d where d: "e = k + int d" by (metis zle_iff_zadd)
    have "?x / 2 powi k = of_int (m * 2 ^ d)"
      by (simp add: d power_int_add)
    then have "rhe (?x / 2 powi k) = m * 2 ^ d" by (simp only: rhe_of_int)
    then show ?thesis unfolding R by (simp add: d power_int_add)
  qed
qed

lemma rnd64_fix: "binary64 x \<Longrightarrow> rnd64 x = x"
proof -
  assume "binary64 x"
  then obtain m e where me: "\<bar>m\<bar> \<le> 2 ^ 53" "- 1074 \<le> e" "x = of_int m * 2 powi e"
    by (auto simp: binary64_def)
  consider "m = 0" | "0 < m" | "m < 0" by linarith
  then show ?thesis
  proof cases
    case 1
    then show ?thesis by (simp add: me rnd64_def)
  next
    case 2
    then have "rnd_pos x = x" using me rnd_pos_fix [of m e] by simp
    then show ?thesis using 2 me by (simp add: rnd64_def)
  next
    case 3
    then have "rnd_pos (of_int (- m) * 2 powi e) = of_int (- m) * 2 powi e"
      using me by (intro rnd_pos_fix) simp_all
    moreover have "x < 0" using 3 me by (simp add: mult_neg_pos)
    ultimately show ?thesis using me by (simp add: rnd64_def)
  qed
qed

lemma rnd64_idem: "rnd64 (rnd64 q) = rnd64 q"
  by (rule rnd64_fix) (rule rnd64_binary64)

lemma rnd_pos_nearest:
  assumes "0 < q" "binary64 y"
  shows "\<bar>rnd_pos q - q\<bar> \<le> \<bar>y - q\<bar>"
proof -
  define e where "e = max (ilog2 q - 52) (- 1074)"
  have R: "rnd_pos q = of_int (rhe (q / 2 powi e)) * 2 powi e"
    by (simp add: rnd_pos_def Let_def e_def)
  have grid: "\<bar>rnd_pos q - q\<bar> \<le> \<bar>of_int z * 2 powi e - q\<bar>" for z
  proof -
    have "\<bar>of_int (rhe (q / 2 powi e)) - q / 2 powi e\<bar> \<le> \<bar>of_int z - q / 2 powi e\<bar>"
      by (rule rhe_closest)
    then have "\<bar>of_int (rhe (q / 2 powi e)) - q / 2 powi e\<bar> * 2 powi e
        \<le> \<bar>of_int z - q / 2 powi e\<bar> * 2 powi e"
      by (rule mult_right_mono) simp
    moreover have "\<bar>a - q / 2 powi e\<bar> * 2 powi e = \<bar>a * 2 powi e - q\<bar>" for a :: rat
    proof -
      have "\<bar>a - q / 2 powi e\<bar> * 2 powi e = \<bar>(a - q / 2 powi e) * 2 powi e\<bar>"
        by (simp add: abs_mult)
      also have "(a - q / 2 powi e) * 2 powi e = a * 2 powi e - q"
        by (simp add: field_simps)
      finally show ?thesis .
    qed
    ultimately show ?thesis by (simp add: R)
  qed
  from assms(2) obtain n f where nf: "\<bar>n\<bar> \<le> 2 ^ 53" "- 1074 \<le> f" "y = of_int n * 2 powi f"
    by (auto simp: binary64_def)
  show ?thesis
  proof (cases "e \<le> f")
    case True
    then obtain d where d: "f = e + int d" by (metis zle_iff_zadd)
    have "y = of_int (n * 2 ^ d) * 2 powi e" by (simp add: nf d power_int_add)
    then show ?thesis using grid [of "n * 2 ^ d"] by simp
  next
    case False
    then have fe: "f + 1 \<le> e" by simp
    with nf(2) have e': "e = ilog2 q - 52" by (simp add: e_def)
    have low: "2 powi (e + 52) \<le> q" using ilog2_bounds [OF assms(1)] by (simp add: e')
    have "n \<le> 2 ^ 53" using nf(1) by simp
    then have "(of_int n :: rat) \<le> of_int (2 ^ 53)" by (simp only: of_int_le_iff)
    then have "y \<le> 2 ^ 53 * 2 powi f" unfolding nf(3) by (simp add: mult_right_mono)
    also have "\<dots> = 2 powi (f + 53)" by (simp add: power_int_add)
    also have "\<dots> \<le> 2 powi (e + 52)" using fe by (intro pow2_mono) simp
    finally have y: "y \<le> 2 powi (e + 52)" .
    have "\<bar>rnd_pos q - q\<bar> \<le> \<bar>of_int (2 ^ 52) * 2 powi e - q\<bar>" by (rule grid)
    also have "of_int (2 ^ 52) * 2 powi e = (2::rat) powi (e + 52)" by (simp add: power_int_add)
    also have "\<bar>2 powi (e + 52) - q\<bar> \<le> \<bar>y - q\<bar>" using y low by simp
    finally show ?thesis .
  qed
qed

lemma rnd64_nearest: "binary64 y \<Longrightarrow> \<bar>rnd64 q - q\<bar> \<le> \<bar>y - q\<bar>"
proof -
  assume y: "binary64 y"
  consider "q = 0" | "0 < q" | "q < 0" by linarith
  then show ?thesis
  proof cases
    case 1
    then show ?thesis by (simp add: rnd64_def)
  next
    case 2
    then show ?thesis using rnd_pos_nearest [OF 2 y] by (simp add: rnd64_def)
  next
    case 3
    then have "0 < - q" by simp
    moreover have "binary64 (- y)" using y by (simp add: binary64_uminus)
    ultimately have "\<bar>rnd_pos (- q) - (- q)\<bar> \<le> \<bar>- y - (- q)\<bar>" by (rule rnd_pos_nearest)
    moreover have "\<bar>- y - (- q)\<bar> = \<bar>y - q\<bar>" by simp
    moreover have "\<bar>rnd_pos (- q) - (- q)\<bar> = \<bar>- rnd_pos (- q) - q\<bar>" by simp
    ultimately show ?thesis using 3 by (simp add: rnd64_def)
  qed
qed

subsection \<open>The error of one rounding\<close>

text \<open>
  Above the subnormal range the result differs from the argument by at most one part in
  \<open>2 ^ 53\<close>. So a product by a float \<open>w\<close> followed by the division by \<open>w\<close> returns
  its argument within one part in \<open>2 ^ 51\<close>.
\<close>

lemma rhe_half: "\<bar>of_int (rhe x) - x\<bar> \<le> 1/2"
proof -
  have "of_int \<lfloor>x\<rfloor> \<le> x" "x < of_int \<lfloor>x\<rfloor> + 1" by linarith+
  then show ?thesis by (auto simp: rhe_def Let_def)
qed

lemma rnd64_rel_error:
  assumes "2 powi (- 1022) \<le> q"
  shows "\<bar>rnd64 q - q\<bar> \<le> q / 2 ^ 53"
proof -
  have q: "0 < q" using assms by (rule less_le_trans [rotated]) simp
  have "ilog2 (2 powi (- 1022)) = - 1022"
    by (rule ilog2_unique) (simp_all add: power_int_add)
  moreover have "ilog2 (2 powi (- 1022)) \<le> ilog2 q"
    using assms by (intro ilog2_mono) simp_all
  ultimately have e: "max (ilog2 q - 52) (- 1074) = ilog2 q - 52" by simp
  define e where "e = ilog2 q - 52"
  have R: "rnd_pos q = of_int (rhe (q / 2 powi e)) * 2 powi e"
    using e by (simp add: rnd_pos_def Let_def e_def)
  have "\<bar>of_int (rhe (q / 2 powi e)) - q / 2 powi e\<bar> * 2 powi e \<le> 1/2 * 2 powi e"
    by (rule mult_right_mono [OF rhe_half]) simp
  moreover have "\<bar>of_int (rhe (q / 2 powi e)) - q / 2 powi e\<bar> * 2 powi e
      = \<bar>(of_int (rhe (q / 2 powi e)) - q / 2 powi e) * 2 powi e\<bar>"
    by (simp add: abs_mult)
  moreover have "(of_int (rhe (q / 2 powi e)) - q / 2 powi e) * 2 powi e = rnd_pos q - q"
    by (simp add: R field_simps)
  ultimately have "\<bar>rnd_pos q - q\<bar> \<le> 2 powi e / 2" by simp
  also have "(2::rat) powi e / 2 = 2 powi ilog2 q / 2 ^ 53"
    by (simp add: e_def power_int_diff)
  also have "\<dots> \<le> q / 2 ^ 53"
    using ilog2_bounds [OF q] by (intro divide_right_mono) simp_all
  finally show ?thesis using q by (simp add: rnd64_def)
qed

lemma cancel_error:
  assumes w: "0 < w" "rnd64 w = w"
    and c: "2 powi (- 1021) \<le> c" and wc: "2 powi (- 1022) \<le> w * c"
  shows "\<bar>rnd64 (rnd64 (rnd64 (w * c)) / rnd64 w) - c\<bar> \<le> c / 2 ^ 51"
proof -
  define p where "p = rnd64 (w * c)"
  define y where "y = p / w"
  have c0: "0 < c" using c by (rule less_le_trans [rotated]) simp
  have "\<bar>p - w * c\<bar> \<le> w * c / 2 ^ 53" unfolding p_def using wc by (rule rnd64_rel_error)
  then have "\<bar>p - w * c\<bar> / w \<le> (w * c / 2 ^ 53) / w" using w(1) by (intro divide_right_mono) simp_all
  moreover have "\<bar>p - w * c\<bar> / w = \<bar>y - c\<bar>"
  proof -
    have "\<bar>p - w * c\<bar> / w = \<bar>(p - w * c) / w\<bar>" using w(1) by simp
    also have "(p - w * c) / w = y - c" using w(1) by (simp add: y_def field_simps)
    finally show ?thesis .
  qed
  ultimately have yc: "\<bar>y - c\<bar> \<le> c / 2 ^ 53" using w(1) by simp
  then have ylo: "c - c / 2 ^ 53 \<le> y" and yhi: "y \<le> c + c / 2 ^ 53" by linarith+
  have "c / 2 \<le> c - c / 2 ^ 53" using c0 by simp
  moreover have "2 powi (- 1022) \<le> c / 2"
  proof -
    have "(2::rat) powi (- 1022) = 2 powi (- 1021) / 2" by (simp add: power_int_minus)
    then show ?thesis using c by simp
  qed
  ultimately have "2 powi (- 1022) \<le> y" using ylo by linarith
  then have "\<bar>rnd64 y - y\<bar> \<le> y / 2 ^ 53" by (rule rnd64_rel_error)
  also have "\<dots> \<le> (c + c / 2 ^ 53) / 2 ^ 53" using yhi by (intro divide_right_mono) simp_all
  finally have ry: "\<bar>rnd64 y - y\<bar> \<le> (c + c / 2 ^ 53) / 2 ^ 53" .
  have "\<bar>rnd64 y - c\<bar> \<le> \<bar>rnd64 y - y\<bar> + \<bar>y - c\<bar>" by simp
  also have "\<dots> \<le> (c + c / 2 ^ 53) / 2 ^ 53 + c / 2 ^ 53" using ry yc by simp
  also have "\<dots> \<le> c / 2 ^ 51" using c0 by (simp add: field_simps)
  finally have "\<bar>rnd64 y - c\<bar> \<le> c / 2 ^ 51" .
  moreover have "rnd64 (rnd64 (rnd64 (w * c)) / rnd64 w) = rnd64 y"
    by (simp add: rnd64_idem w(2) y_def p_def)
  ultimately show ?thesis by simp
qed

subsection \<open>The threshold 0.5 under one product and one quotient\<close>

text \<open>A float of at least \<open>2 powi (- 1021)\<close> is a normal number, and so is its half.\<close>

lemma float_normal:
  assumes wfix: "rnd64 w = w" and lo: "2 powi (- 1021) \<le> w"
  shows "\<exists>m e. w = of_int m * 2 powi e \<and> 2 ^ 52 \<le> m \<and> m < 2 ^ 53 \<and> - 1073 \<le> e"
proof -
  have w0: "0 < w" using lo by (rule less_le_trans [rotated]) simp
  have "ilog2 (2 powi (- 1021)) = - 1021"
    by (rule ilog2_unique) (simp_all add: power_int_add)
  moreover have "ilog2 (2 powi (- 1021)) \<le> ilog2 w"
    using lo by (intro ilog2_mono) simp_all
  ultimately have k: "- 1021 \<le> ilog2 w" by simp
  define e where "e = ilog2 w - 52"
  define m where "m = rhe (w / 2 powi e)"
  have "max (ilog2 w - 52) (- 1074) = e" using k by (simp add: e_def)
  then have "rnd_pos w = of_int m * 2 powi e" by (simp add: rnd_pos_def Let_def m_def)
  then have w: "w = of_int m * 2 powi e" using wfix w0 by (simp add: rnd64_def)
  have lo2: "(2::rat) powi ilog2 w = 2 ^ 52 * 2 powi e"
    by (simp add: e_def power_int_diff)
  have hi2: "(2::rat) powi (ilog2 w + 1) = 2 ^ 53 * 2 powi e"
    by (simp add: e_def power_int_diff power_int_add)
  have "(2::rat) ^ 52 * 2 powi e \<le> of_int m * 2 powi e"
      "(of_int m :: rat) * 2 powi e < 2 ^ 53 * 2 powi e"
    using ilog2_bounds [OF w0] w lo2 hi2 by simp_all
  then have "(2::rat) ^ 52 \<le> of_int m" "of_int m < (2::rat) ^ 53" by simp_all
  then have "(of_int (2 ^ 52) :: rat) \<le> of_int m" "(of_int m :: rat) < of_int (2 ^ 53)" by simp_all
  then have "2 ^ 52 \<le> m" "m < 2 ^ 53" by (simp_all only: of_int_le_iff of_int_less_iff)
  moreover have "- 1073 \<le> e" using k by (simp add: e_def)
  ultimately show ?thesis using w by blast
qed

lemma binary64I:
  "\<bar>m\<bar> \<le> 2 ^ 53 \<Longrightarrow> - 1074 \<le> e \<Longrightarrow> x = of_int m * 2 powi e \<Longrightarrow> binary64 x"
  unfolding binary64_def by blast

lemma rnd64_half: "rnd64 (1/2) = 1/2"
proof (rule rnd64_fix)
  show "binary64 (1/2)"
    by (rule binary64I [of 1 "- 1"]) (simp_all add: power_int_minus)
qed

lemma binary64_above_half: "binary64 (1/2 + 1/2 ^ 53)"
proof (rule binary64I [of "2 ^ 52 + 1" "- 53"])
  show "\<bar>2 ^ 52 + 1 :: int\<bar> \<le> 2 ^ 53" by simp
  show "- 1074 \<le> (- 53 :: int)" by simp
  have "(2::rat) powi (- 53) = 1 / 2 ^ 53" by (simp add: power_int_minus field_simps)
  then show "(1/2 + 1/2 ^ 53 :: rat) = of_int (2 ^ 52 + 1) * 2 powi (- 53)" by simp
qed

lemma rnd64_above_half: "rnd64 (1/2 + 1/2 ^ 53) = 1/2 + 1/2 ^ 53"
  by (rule rnd64_fix) (rule binary64_above_half)

text \<open>No float lies strictly between 1/2 and \<open>1/2 + 1/2 ^ 53\<close>, the next float above it.\<close>

lemma float_above_half:
  assumes "rnd64 c = c" "1/2 < c"
  shows "1/2 + 1/2 ^ 53 \<le> c"
proof (rule ccontr)
  assume "\<not> 1/2 + 1/2 ^ 53 \<le> c"
  then have hi: "c < 1/2 + 1/2 ^ 53" by simp
  have c0: "0 < c" using assms(2) by simp
  have "ilog2 c = - 1"
    using assms(2) hi by (intro ilog2_unique) (simp_all add: power_int_minus)
  then have "rnd_pos c = of_int (rhe (c / 2 powi (- 53))) * 2 powi (- 53)"
    by (simp add: rnd_pos_def Let_def)
  then have "c = of_int (rhe (c / 2 powi (- 53))) * 2 powi (- 53)"
    using assms(1) c0 by (simp add: rnd64_def)
  then have "c * 2 ^ 53 = of_int (rhe (c / 2 powi (- 53)))"
    by (simp add: power_int_minus field_simps)
  then obtain N :: int where N: "c * 2 ^ 53 = of_int N" by blast
  have "2 ^ 52 < c * 2 ^ 53" "c * 2 ^ 53 < 2 ^ 52 + 1" using assms(2) hi by (simp_all add: field_simps)
  then have "(of_int (2 ^ 52) :: rat) < of_int N" "(of_int N :: rat) < of_int (2 ^ 52 + 1)"
    unfolding N by simp_all
  then have "2 ^ 52 < N" "N < 2 ^ 52 + 1" by (simp_all only: of_int_less_iff)
  then show False by simp
qed

text \<open>A number beyond the midpoint of these two floats rounds above 1/2.\<close>

lemma rnd64_gt_half:
  assumes "1/2 + 1/2 ^ 54 < q"
  shows "1/2 < rnd64 q"
proof (cases "1/2 + 1/2 ^ 53 \<le> q")
  case True
  then have "rnd64 (1/2 + 1/2 ^ 53) \<le> rnd64 q" by (rule rnd64_mono)
  then show ?thesis unfolding rnd64_above_half by simp
next
  case False
  have "\<bar>rnd64 q - q\<bar> \<le> \<bar>(1/2 + 1/2 ^ 53) - q\<bar>"
    using binary64_above_half by (rule rnd64_nearest)
  moreover have "\<bar>(1/2 + 1/2 ^ 53) - q\<bar> < 1/2 ^ 54" using False assms by simp
  ultimately have "q - 1/2 ^ 54 < rnd64 q" by linarith
  then show ?thesis using assms by linarith
qed

text \<open>
  The product of a float \<open>c\<close> by a weight, divided by the weight, is on the same side
  of 1/2 as \<open>c\<close>: half the weight is a float, so a product of at most that rounds to
  at most that, and for \<open>c\<close> above 1/2 the product rounds to the float next above half
  the weight or beyond, and the quotient is past the midpoint.
\<close>

lemma verdict_cancel:
  assumes wfix: "rnd64 w = w" and lo: "2 powi (- 1021) \<le> w" and c: "rnd64 c = c"
  shows "(1/2 < rnd64 (rnd64 (rnd64 (w * c)) / rnd64 w)) \<longleftrightarrow> (1/2 < c)"
proof -
  have w0: "0 < w" using lo by (rule less_le_trans [rotated]) simp
  from float_normal [OF wfix lo] obtain m e
    where w: "w = of_int m * 2 powi e" and m: "2 ^ 52 \<le> m" "m < 2 ^ 53" and e: "- 1073 \<le> e"
    by blast
  have score: "rnd64 (rnd64 (rnd64 (w * c)) / rnd64 w) = rnd64 (rnd64 (w * c) / w)"
    by (simp add: rnd64_idem wfix)
  have step: "(2::rat) powi e = 2 * 2 powi (e - 1)" by (simp add: power_int_diff)
  show ?thesis
  proof (cases "1/2 < c")
    case False
    have "binary64 (of_int m * 2 powi (e - 1))"
      using m e by (intro binary64I [of m "e - 1"]) simp_all
    then have half: "rnd64 (w / 2) = w / 2" using rnd64_fix [of "of_int m * 2 powi (e - 1)"]
      by (simp add: w step)
    have "w * c \<le> w / 2" using False w0 by (simp add: field_simps)
    then have "rnd64 (w * c) \<le> w / 2" using rnd64_mono [of "w * c" "w / 2"] half by simp
    then have "rnd64 (w * c) / w \<le> 1/2" using w0 by (simp add: field_simps)
    then have "rnd64 (rnd64 (w * c) / w) \<le> 1/2"
      using rnd64_mono [of "rnd64 (w * c) / w" "1/2"] by (simp add: rnd64_half)
    then show ?thesis using False by (simp add: score)
  next
    case True
    have c0: "1/2 + 1/2 ^ 53 \<le> c" using c True by (rule float_above_half)
    define u where "u = (2::rat) powi (e - 1)"
    have u0: "0 < u" by (simp add: u_def)
    have wu: "w = 2 * of_int m * u" by (simp add: w step u_def)
    have M: "(2::rat) ^ 52 \<le> of_int m" "(of_int m :: rat) < 2 ^ 53"
    proof -
      have "(of_int (2 ^ 52) :: rat) \<le> of_int m" "(of_int m :: rat) < of_int (2 ^ 53)"
        using m by (simp_all only: of_int_le_iff of_int_less_iff)
      then show "(2::rat) ^ 52 \<le> of_int m" "(of_int m :: rat) < 2 ^ 53" by simp_all
    qed
    have "binary64 (of_int (m + 1) * 2 powi (e - 1))"
      using m e by (intro binary64I [of "m + 1" "e - 1"]) simp_all
    then have up: "rnd64 ((of_int m + 1) * u) = (of_int m + 1) * u"
      using rnd64_fix [of "of_int (m + 1) * 2 powi (e - 1)"] by (simp add: u_def)
    have "w * (1/2 + 1/2 ^ 53) \<le> w * c" using c0 w0 by (intro mult_left_mono) simp_all
    moreover have "w * (1/2 + 1/2 ^ 53) = (of_int m + of_int m / 2 ^ 52) * u"
      by (simp add: wu field_simps)
    moreover have "(of_int m + 1) * u \<le> (of_int m + of_int m / 2 ^ 52) * u"
      using M(1) u0 by (intro mult_right_mono) simp_all
    ultimately have "(of_int m + 1) * u \<le> w * c" by linarith
    then have "(of_int m + 1) * u \<le> rnd64 (w * c)"
      using rnd64_mono [of "(of_int m + 1) * u" "w * c"] up by simp
    then have "(of_int m + 1) * u / w \<le> rnd64 (w * c) / w"
      using w0 by (intro divide_right_mono) simp_all
    moreover have "(of_int m + 1) * u / w = 1/2 + 1 / (2 * of_int m)"
      using u0 M(1) by (simp add: wu field_simps)
    moreover have "1/2 ^ 54 < 1 / (2 * (of_int m :: rat))"
      using M by (simp add: field_simps)
    ultimately have "1/2 + 1/2 ^ 54 < rnd64 (w * c) / w" by linarith
    then have "1/2 < rnd64 (rnd64 (w * c) / w)" by (rule rnd64_gt_half)
    then show ?thesis using True by (simp add: score)
  qed
qed

text \<open>Below the normal range the spacing of the floats is \<open>1 / 2 ^ 1074\<close>.\<close>

lemma rnd64_subnormal:
  assumes "0 < q" "q < 2 powi (- 1022)"
  shows "rnd64 q = of_int (rhe (q * 2 ^ 1074)) / 2 ^ 1074"
proof -
  have "ilog2 q < - 1022"
  proof (rule ccontr)
    assume "\<not> ilog2 q < - 1022"
    then have "(2::rat) powi (- 1022) \<le> 2 powi ilog2 q" by (intro pow2_mono) simp
    then show False using ilog2_bounds [OF assms(1)] assms(2) by simp
  qed
  then have "max (ilog2 q - 52) (- 1074) = - 1074" by simp
  then have "rnd_pos q = of_int (rhe (q / 2 powi (- 1074))) * 2 powi (- 1074)"
    by (simp add: rnd_pos_def Let_def)
  moreover have "(2::rat) powi (- 1074) = 1 / 2 ^ 1074" by (simp add: power_int_minus field_simps)
  ultimately show ?thesis using assms(1) by (simp add: rnd64_def)
qed

subsection \<open>The binary64 operations of the examples\<close>

text \<open>
  Each float operation that the examples below perform, with its correctly rounded
  result: the literals, the products \<open>weight * confidence\<close>, the partial sums and the
  final quotients.
\<close>

lemma b64_1: "rnd64 (42836449082912326566282307995435 / 2596148429267413814265248164610048) = 1188950301625811 / 72057594037927936"
  using rnd64_cert [of "42836449082912326566282307995435 / 2596148429267413814265248164610048" 58 4755801206503244] by simp

lemma b64_2: "rnd64 (1188950301625811 / 72057594037927936) = 1188950301625811 / 72057594037927936"
  using rnd64_cert [of "1188950301625811 / 72057594037927936" 58 4755801206503244] by simp

lemma b64_3: "rnd64 (12980742146337070512478121581609 / 649037107316853453566312041152512) = 1441151880758559 / 72057594037927936"
  using rnd64_cert [of "12980742146337070512478121581609 / 649037107316853453566312041152512" 58 5764607523034236] by simp

lemma b64_4: "rnd64 (5404319552844595 / 144115188075855872) = 5404319552844595 / 144115188075855872"
  using rnd64_cert [of "5404319552844595 / 144115188075855872" 57 5404319552844595] by simp

lemma b64_5: "rnd64 (17037224067067401444747832679465 / 324518553658426726783156020576256) = 7566047373982433 / 144115188075855872"
  using rnd64_cert [of "17037224067067401444747832679465 / 324518553658426726783156020576256" 57 7566047373982433] by simp

lemma b64_6: "rnd64 (7566047373982433 / 144115188075855872) = 7566047373982433 / 144115188075855872"
  using rnd64_cert [of "7566047373982433 / 144115188075855872" 57 7566047373982433] by simp

lemma b64_7: "rnd64 (13386390338410103065273137406935 / 162259276829213363391578010288128) = 5944751508129055 / 72057594037927936"
  using rnd64_cert [of "13386390338410103065273137406935 / 162259276829213363391578010288128" 56 5944751508129055] by simp

lemma b64_8: "rnd64 (5944751508129055 / 72057594037927936) = 5944751508129055 / 72057594037927936"
  using rnd64_cert [of "5944751508129055 / 72057594037927936" 56 5944751508129055] by simp

lemma b64_9: "rnd64 (1 / 10) = 3602879701896397 / 36028797018963968"
  using rnd64_cert [of "1 / 10" 56 7205759403792794] by simp

lemma b64_10: "rnd64 (11 / 100) = 7926335344172073 / 72057594037927936"
  using rnd64_cert [of "11 / 100" 56 7926335344172073] by simp

lemma b64_11: "rnd64 (1188950301625811 / 10808639105689190) = 3963167672086037 / 36028797018963968"
  using rnd64_cert [of "1188950301625811 / 10808639105689190" 56 7926335344172074] by simp

lemma b64_12: "rnd64 (5044031582654955 / 36028797018963968) = 5044031582654955 / 36028797018963968"
  using rnd64_cert [of "5044031582654955 / 36028797018963968" 55 5044031582654955] by simp

lemma b64_13: "rnd64 (11358149378044935347338468172759 / 81129638414606681695789005144064) = 5044031582654955 / 36028797018963968"
  using rnd64_cert [of "11358149378044935347338468172759 / 81129638414606681695789005144064" 55 5044031582654955] by simp

lemma b64_14: "rnd64 (5404319552844595 / 36028797018963968) = 5404319552844595 / 36028797018963968"
  using rnd64_cert [of "5404319552844595 / 36028797018963968" 55 5404319552844595] by simp

lemma b64_15: "rnd64 (3 / 20) = 5404319552844595 / 36028797018963968"
  using rnd64_cert [of "3 / 20" 55 5404319552844595] by simp

lemma b64_16: "rnd64 (11529215046068469 / 72057594037927936) = 2882303761517117 / 18014398509481984"
  using rnd64_cert [of "11529215046068469 / 72057594037927936" 55 5764607523034234] by simp

lemma b64_17: "rnd64 (12980742146337070512478121581609 / 81129638414606681695789005144064) = 1441151880758559 / 9007199254740992"
  using rnd64_cert [of "12980742146337070512478121581609 / 81129638414606681695789005144064" 55 5764607523034236] by simp

lemma b64_18: "rnd64 (28462749644981539 / 144115188075855872) = 7115687411245385 / 36028797018963968"
  using rnd64_cert [of "28462749644981539 / 144115188075855872" 55 7115687411245385] by simp

lemma b64_19: "rnd64 (1 / 5) = 3602879701896397 / 18014398509481984"
  using rnd64_cert [of "1 / 5" 55 7205759403792794] by simp

lemma b64_20: "rnd64 (3602879701896397 / 18014398509481984) = 3602879701896397 / 18014398509481984"
  using rnd64_cert [of "3602879701896397 / 18014398509481984" 55 7205759403792794] by simp

lemma b64_21: "rnd64 (30624477466119377 / 144115188075855872) = 1914029841632461 / 9007199254740992"
  using rnd64_cert [of "30624477466119377 / 144115188075855872" 55 7656119366529844] by simp

lemma b64_22: "rnd64 (1 / 4) = 1 / 4"
  using rnd64_cert [of "1 / 4" 54 4503599627370496] by simp

lemma b64_23: "rnd64 (36028797018963971 / 144115188075855872) = 1 / 4"
  using rnd64_cert [of "36028797018963971 / 144115188075855872" 54 4503599627370496] by simp

lemma b64_24: "rnd64 (36028797018963973 / 144115188075855872) = 4503599627370497 / 18014398509481984"
  using rnd64_cert [of "36028797018963973 / 144115188075855872" 54 4503599627370497] by simp

lemma b64_25: "rnd64 (7 / 20) = 3152519739159347 / 9007199254740992"
  using rnd64_cert [of "7 / 20" 54 6305039478318694] by simp

lemma b64_26: "rnd64 (12610078956637389 / 36028797018963968) = 3152519739159347 / 9007199254740992"
  using rnd64_cert [of "12610078956637389 / 36028797018963968" 54 6305039478318694] by simp

lemma b64_27: "rnd64 (2882303761517117 / 7205759403792794) = 900719925474099 / 2251799813685248"
  using rnd64_cert [of "2882303761517117 / 7205759403792794" 54 7205759403792792] by simp

lemma b64_28: "rnd64 (3602879701896397 / 9007199254740992) = 3602879701896397 / 9007199254740992"
  using rnd64_cert [of "3602879701896397 / 9007199254740992" 54 7205759403792794] by simp

lemma b64_29: "rnd64 (18014398509481983 / 36028797018963968) = 1 / 2"
  using rnd64_cert [of "18014398509481983 / 36028797018963968" 54 9007199254740992] by simp

lemma b64_30: "rnd64 (1 / 2) = 1 / 2"
  using rnd64_cert [of "1 / 2" 53 4503599627370496] by simp

lemma b64_31: "rnd64 (4503599627370497 / 9007199254740992) = 4503599627370497 / 9007199254740992"
  using rnd64_cert [of "4503599627370497 / 9007199254740992" 53 4503599627370497] by simp

lemma b64_32: "rnd64 (11 / 20) = 2476979795053773 / 4503599627370496"
  using rnd64_cert [of "11 / 20" 53 4953959590107546] by simp

lemma b64_33: "rnd64 (1188950301625811 / 2161727821137838) = 2476979795053773 / 4503599627370496"
  using rnd64_cert [of "1188950301625811 / 2161727821137838" 53 4953959590107546] by simp

lemma b64_34: "rnd64 (3 / 5) = 5404319552844595 / 9007199254740992"
  using rnd64_cert [of "3 / 5" 53 5404319552844595] by simp

lemma b64_35: "rnd64 (1351079888211149 / 2251799813685248) = 1351079888211149 / 2251799813685248"
  using rnd64_cert [of "1351079888211149 / 2251799813685248" 53 5404319552844596] by simp

lemma b64_36: "rnd64 (7 / 10) = 3152519739159347 / 4503599627370496"
  using rnd64_cert [of "7 / 10" 53 6305039478318694] by simp

lemma b64_37: "rnd64 (4 / 5) = 3602879701896397 / 4503599627370496"
  using rnd64_cert [of "4 / 5" 53 7205759403792794] by simp

lemma b64_38: "rnd64 (61924494876344325 / 1125899906842624) = 7740561859543041 / 140737488355328"
  using rnd64_cert [of "61924494876344325 / 1125899906842624" 47 7740561859543041] by simp

lemma b64_39: "rnd64 (33776997205278725 / 562949953421312) = 8444249301319681 / 140737488355328"
  using rnd64_cert [of "33776997205278725 / 562949953421312" 47 8444249301319681] by simp

lemma rhe_1: "rhe (38702809297715205 / 70368744177664) = 550"
  using rhe_nearest [of "38702809297715205 / 70368744177664" 550] by simp

lemma rhe_2: "rhe (42221246506598405 / 70368744177664) = 600"
  using rhe_nearest [of "42221246506598405 / 70368744177664" 600] by simp

lemma b64_40: "rnd64 (1351079888211149 / 18014398509481984) = 1351079888211149 / 18014398509481984"
  using rnd64_cert [of "1351079888211149 / 18014398509481984" 56 5404319552844596] by simp

lemma b64_41: "rnd64 (24338891524382009012336328913715 / 324518553658426726783156020576256) = 1351079888211149 / 18014398509481984"
  using rnd64_cert [of "24338891524382009012336328913715 / 324518553658426726783156020576256" 56 5404319552844596] by simp

lemma b64_42: "rnd64 (37830236869912165 / 288230376151711744) = 4728779608739021 / 36028797018963968"
  using rnd64_cert [of "37830236869912165 / 288230376151711744" 55 4728779608739021] by simp

lemma b64_43: "rnd64 (10808639105689191 / 72057594037927936) = 1351079888211149 / 9007199254740992"
  using rnd64_cert [of "10808639105689191 / 72057594037927936" 55 5404319552844596] by simp

lemma b64_44: "rnd64 (1351079888211149 / 9007199254740992) = 1351079888211149 / 9007199254740992"
  using rnd64_cert [of "1351079888211149 / 9007199254740992" 55 5404319552844596] by simp

lemma b64_45: "rnd64 (1351079888211149 / 4503599627370496) = 1351079888211149 / 4503599627370496"
  using rnd64_cert [of "1351079888211149 / 4503599627370496" 54 5404319552844596] by simp

lemma b64_46: "rnd64 (48638875975601363 / 144115188075855872) = 3039929748475085 / 9007199254740992"
  using rnd64_cert [of "48638875975601363 / 144115188075855872" 54 6079859496950170] by simp

lemma b64_47: "rnd64 (16888498602639361 / 36028797018963968) = 15 / 32"
  using rnd64_cert [of "16888498602639361 / 36028797018963968" 54 8444249301319680] by simp

lemma b64_48: "rnd64 (2702159776422298 / 5404319552844595) = 4503599627370497 / 9007199254740992"
  using rnd64_cert [of "2702159776422298 / 5404319552844595" 53 4503599627370497] by simp

lemma b64_49: "rnd64 (9907919180215091 / 18014398509481984) = 2476979795053773 / 4503599627370496"
  using rnd64_cert [of "9907919180215091 / 18014398509481984" 53 4953959590107546] by simp

lemma b64_50: "rnd64 (19815838360430183 / 36028797018963968) = 2476979795053773 / 4503599627370496"
  using rnd64_cert [of "19815838360430183 / 36028797018963968" 53 4953959590107546] by simp

lemma b64_51: "rnd64 (21617278211378381 / 36028797018963968) = 5404319552844595 / 9007199254740992"
  using rnd64_cert [of "21617278211378381 / 36028797018963968" 53 5404319552844595] by simp

lemma b64_52: "rnd64 (25220157913274779 / 36028797018963968) = 6305039478318695 / 9007199254740992"
  using rnd64_cert [of "25220157913274779 / 36028797018963968" 53 6305039478318695] by simp

lemma b64_53: "rnd64 (5404319552844595 / 7656119366529844) = 3179011501673291 / 4503599627370496"
  using rnd64_cert [of "5404319552844595 / 7656119366529844" 53 6358023003346582] by simp

lemma b64_54: "rnd64 (3 / 4) = 3 / 4"
  using rnd64_cert [of "3 / 4" 53 6755399441055744] by simp

lemma b64_55: "rnd64 (30624477466119375 / 36028797018963968) = 1914029841632461 / 2251799813685248"
  using rnd64_cert [of "30624477466119375 / 36028797018963968" 53 7656119366529844] by simp

lemma b64_56: "rnd64 (7 / 8) = 7 / 8"
  using rnd64_cert [of "7 / 8" 53 7881299347898368] by simp

lemma b64_57: "rnd64 (36028797018963971 / 36028797018963968) = 1"
  using rnd64_cert [of "36028797018963971 / 36028797018963968" 52 4503599627370496] by simp

lemmas b64 =
  b64_1 b64_2 b64_3 b64_4 b64_5 b64_6 b64_7 b64_8 b64_9 b64_10 b64_11 b64_12 b64_13
  b64_14 b64_15 b64_16 b64_17 b64_18 b64_19 b64_20 b64_21 b64_22 b64_23 b64_24 b64_25
  b64_26 b64_27 b64_28 b64_29 b64_30 b64_31 b64_32 b64_33 b64_34 b64_35 b64_36 b64_37
  b64_38 b64_39 b64_40 b64_41 b64_42 b64_43 b64_44 b64_45 b64_46 b64_47 b64_48 b64_49
  b64_50 b64_51 b64_52 b64_53 b64_54 b64_55 b64_56 b64_57 rhe_1 rhe_2

text \<open>
  For a confidence that is a float, exceeding the literal \<^verbatim>\<open>0.6\<close> is exceeding
  \<open>3/5\<close>: the literal is the float next below \<open>3/5\<close>.
\<close>

lemma literal_06:
  assumes "rnd64 c = c"
  shows "(rnd64 (3/5) < c) = (3/5 < c)"
proof
  assume "rnd64 (3/5) < c"
  show "3/5 < c"
  proof (rule ccontr)
    assume "\<not> 3/5 < c"
    then have "c \<le> 3/5" by simp
    then have "rnd64 c \<le> rnd64 (3/5)" by (rule rnd64_mono)
    with assms \<open>rnd64 (3/5) < c\<close> show False by simp
  qed
next
  assume "3/5 < c"
  then show "rnd64 (3/5) < c" by (simp add: b64)
qed

section \<open>Properties of the detection loops\<close>

lemma run_methods_origin:
  "map_of (run_methods reg image_path mr) n = Some r \<Longrightarrow>
   map_of mr n = Some r \<or> (\<exists>f w. (n, f, w) \<in> set reg \<and> r = run_method f image_path)"
proof (induction reg arbitrary: mr)
  case Nil
  then show ?case by simp
next
  case (Cons a reg)
  obtain n' f' w' where a: "a = (n', f', w')" by (cases a)
  from Cons.prems have
    "map_of (run_methods reg image_path (AList.update n' (run_method f' image_path) mr)) n = Some r"
    by (simp add: a)
  from Cons.IH [OF this] show ?case
    by (auto simp: a update_conv' split: if_splits)
qed

lemma aggregate_loop_all_failed:
  "(\<And>n f w r. (n, f, w) \<in> set reg \<Longrightarrow> map_of mr n = Some r \<Longrightarrow> error r \<noteq> None) \<Longrightarrow>
   aggregate_loop rnd reg mr acc = acc"
proof (induction reg arbitrary: acc)
  case Nil
  then show ?case by simp
next
  case (Cons a reg)
  obtain n f w where a: "a = (n, f, w)" by (cases a)
  obtain s t cf where acc: "acc = (s, t, cf)" by (cases acc)
  have rest: "aggregate_loop rnd reg mr (s, t, cf) = (s, t, cf)"
    by (rule Cons.IH) (rule Cons.prems, auto)
  show ?case
  proof (cases "map_of mr n")
    case None
    then show ?thesis by (simp add: a acc rest)
  next
    case (Some r)
    then have "error r \<noteq> None" using Cons.prems [of n f w r] by (simp add: a)
    then show ?thesis using Some by (auto simp: a acc rest)
  qed
qed

lemma detect_returns:
  assumes "store_accepts update_detection_metadata metadata_id"
  shows "detect rnd detection_methods update_detection_metadata elapsed image_path metadata_id
           = Inr (detection_results rnd detection_methods elapsed image_path)"
proof (cases metadata_id)
  case None
  then show ?thesis by (simp add: detect_def detection_results_def)
next
  case (Some mid)
  show ?thesis
  proof (cases "mid = []")
    case True
    then show ?thesis using Some by (simp add: detect_def detection_results_def)
  next
    case False
    with assms Some
    have "\<exists>modified. update_detection_metadata mid
            (update_data (detection_results rnd detection_methods elapsed image_path)) = Inr modified"
      by (simp add: store_accepts_def)
    then show ?thesis using Some False
      by (auto simp: detect_def detection_results_def update_metadata_def)
  qed
qed

lemma successful_Nil: "successful [] mr = []"
  by (simp add: successful_def map_filter_simps)

lemma successful_Cons:
  "successful ((n, f, w) # reg) mr =
     (case map_of mr n of
        None \<Rightarrow> successful reg mr
      | Some r \<Rightarrow> if error r = None then (n, w, r) # successful reg mr else successful reg mr)"
  by (simp add: successful_def map_filter_simps split: option.splits)

lemma aggregate_loop_eq:
  "aggregate_loop rnd reg mr (s, t, cf) =
     (foldl (\<lambda>s (w, c). rnd (s + rnd (w * c))) s (scores (successful reg mr)),
      foldl (\<lambda>t w. rnd (t + w)) t (weights (successful reg mr)),
      cf @ significant rnd (successful reg mr))"
proof (induction reg arbitrary: s t cf)
  case Nil
  then show ?case by (simp add: successful_Nil significant_def scores_def weights_def)
next
  case (Cons a reg)
  obtain n f w where a: "a = (n, f, w)" by (cases a)
  show ?case
    by (cases "map_of mr n")
       (auto simp: a successful_Cons Cons.IH significant_def scores_def weights_def Let_def)
qed

lemma aggregate_results_eq:
  "aggregate_results rnd reg res =
     res\<lparr>res_is_ai_generated := 1/2 < weighted_average rnd (successful reg (method_results res)),
         res_confidence_score := weighted_average rnd (successful reg (method_results res)),
         contributing_factors := significant rnd (successful reg (method_results res))\<rparr>"
  by (simp add: aggregate_results_def aggregate_loop_eq weighted_sum_def total_weight_def
        weighted_average_def Let_def)

lemma run_methods_untouched:
  "n \<notin> fst ` set reg \<Longrightarrow> map_of (run_methods reg image_path mr) n = map_of mr n"
proof (induction reg arbitrary: mr)
  case Nil
  then show ?case by simp
next
  case (Cons a reg)
  obtain n' f' w' where a: "a = (n', f', w')" by (cases a)
  with Cons show ?case by (auto simp: update_conv')
qed

lemma run_methods_lookup:
  "distinct (map fst reg) \<Longrightarrow> (n, f, w) \<in> set reg \<Longrightarrow>
   map_of (run_methods reg image_path mr) n = Some (run_method f image_path)"
proof (induction reg arbitrary: mr)
  case Nil
  then show ?case by simp
next
  case (Cons a reg)
  obtain n' f' w' where a: "a = (n', f', w')" by (cases a)
  show ?case
  proof (cases "(n, f, w) = a")
    case True
    then have "n \<notin> fst ` set reg" using Cons.prems(1) by (auto simp: a)
    then show ?thesis using True [symmetric] by (simp add: run_methods_untouched update_conv')
  next
    case False
    then have "(n, f, w) \<in> set reg" using Cons.prems(2) by simp
    moreover have "distinct (map fst reg)" using Cons.prems(1) by simp
    ultimately show ?thesis using Cons.IH by (simp add: a)
  qed
qed

lemma successful_lookup:
  "(\<And>n f w. (n, f, w) \<in> set reg \<Longrightarrow> map_of mr n = Some (run_method f image_path)) \<Longrightarrow>
   successful reg mr = non_failed reg image_path"
proof (induction reg)
  case Nil
  then show ?case by (simp add: successful_Nil non_failed_def outcomes_def)
next
  case (Cons a reg)
  obtain n f w where a: "a = (n, f, w)" by (cases a)
  have "successful reg mr = non_failed reg image_path"
  proof (rule Cons.IH)
    fix n' f' w'
    assume "(n', f', w') \<in> set reg"
    then show "map_of mr n' = Some (run_method f' image_path)"
      using Cons.prems [of n' f' w'] by simp
  qed
  moreover have "map_of mr n = Some (run_method f image_path)"
    using Cons.prems [of n f w] by (simp add: a)
  ultimately show ?case
    by (simp add: a successful_Cons non_failed_def outcomes_def)
qed

lemma successful_run_methods:
  "distinct (map fst reg) \<Longrightarrow>
   successful reg (run_methods reg image_path []) = non_failed reg image_path"
  by (rule successful_lookup) (rule run_methods_lookup)

lemma detection_results_eq:
  assumes "distinct (map fst reg)"
  shows "detection_results rnd reg elapsed image_path =
     \<lparr>res_is_ai_generated = 1/2 < weighted_average rnd (non_failed reg image_path),
      res_confidence_score = weighted_average rnd (non_failed reg image_path),
      res_processing_time = elapsed,
      method_results = run_methods reg image_path [],
      contributing_factors = significant rnd (non_failed reg image_path)\<rparr>"
  by (simp add: detection_results_def aggregate_results_eq successful_run_methods [OF assms])

lemma total_weight_fold_pos:
  assumes "rounding rnd" "\<forall>w \<in> set ws. 0 < w \<and> rnd w = w" "0 \<le> t" "0 < t \<or> ws \<noteq> []"
  shows "0 < foldl (\<lambda>t w. rnd (t + w)) t ws"
  using assms(2-)
proof (induction ws arbitrary: t)
  case Nil
  then show ?case by simp
next
  case (Cons w ws)
  have "w \<le> t + w" using Cons.prems by simp
  then have "rnd w \<le> rnd (t + w)" using assms(1) by (simp add: rounding_def)
  then have "0 < rnd (t + w)" using Cons.prems by simp
  then show ?case using Cons by simp
qed

lemma total_weight_pos:
  "rounding rnd \<Longrightarrow> \<forall>w \<in> set ws. 0 < w \<and> rnd w = w \<Longrightarrow> ws \<noteq> [] \<Longrightarrow> 0 < total_weight rnd ws"
  unfolding total_weight_def by (rule total_weight_fold_pos) simp_all

lemma weighted_sum_fold_bounds:
  assumes "rounding rnd"
    and "\<forall>(w, c) \<in> set wcs. 0 < w \<and> rnd w = w \<and> 0 \<le> c \<and> c \<le> 1"
    and "0 \<le> s" "s \<le> t"
  shows "0 \<le> foldl (\<lambda>s (w, c). rnd (s + rnd (w * c))) s wcs
       \<and> foldl (\<lambda>s (w, c). rnd (s + rnd (w * c))) s wcs \<le> foldl (\<lambda>t w. rnd (t + w)) t (map fst wcs)"
  using assms(2-)
proof (induction wcs arbitrary: s t)
  case Nil
  then show ?case by simp
next
  case (Cons a wcs)
  obtain w c where a: "a = (w, c)" by (cases a)
  have mono: "\<And>x y. x \<le> y \<Longrightarrow> rnd x \<le> rnd y" and z: "rnd 0 = 0"
    using assms(1) by (simp_all add: rounding_def)
  have wc: "0 < w" "rnd w = w" "0 \<le> c" "c \<le> 1" using Cons.prems(1) by (simp_all add: a)
  have "0 \<le> w * c" "w * c \<le> w" using wc by (simp_all add: mult_left_le)
  then have p: "0 \<le> rnd (w * c)" "rnd (w * c) \<le> w" using mono [of 0 "w * c"] mono [of "w * c" w] z wc by simp_all
  have "0 \<le> s + rnd (w * c)" "s + rnd (w * c) \<le> t + w" using p Cons.prems by simp_all
  then have "0 \<le> rnd (s + rnd (w * c))" "rnd (s + rnd (w * c)) \<le> rnd (t + w)"
    using mono [of 0 "s + rnd (w * c)"] mono [of "s + rnd (w * c)" "t + w"] z by simp_all
  moreover have "\<forall>(w, c) \<in> set wcs. 0 < w \<and> rnd w = w \<and> 0 \<le> c \<and> c \<le> 1" using Cons.prems(1) by simp
  ultimately show ?case using Cons.IH [of "rnd (s + rnd (w * c))" "rnd (t + w)"] by (simp add: a)
qed

lemma weighted_average_bounds:
  assumes "rounding rnd"
    and "\<forall>(n, w, r) \<in> set xs. 0 < w \<and> rnd w = w \<and> 0 \<le> confidence_score r \<and> confidence_score r \<le> 1"
  shows "0 \<le> weighted_average rnd xs \<and> weighted_average rnd xs \<le> 1"
proof (cases "0 < total_weight rnd (weights xs)")
  case False
  then show ?thesis by (simp add: weighted_average_def)
next
  case True
  have fst: "map fst (scores xs) = weights xs" by (simp add: scores_def weights_def case_prod_beta)
  have "\<forall>(w, c) \<in> set (scores xs). 0 < w \<and> rnd w = w \<and> 0 \<le> c \<and> c \<le> 1"
    using assms(2) by (auto simp: scores_def)
  from weighted_sum_fold_bounds [OF assms(1) this, of 0 0]
  have S: "0 \<le> weighted_sum rnd (scores xs)" "weighted_sum rnd (scores xs) \<le> total_weight rnd (weights xs)"
    by (simp_all add: weighted_sum_def total_weight_def fst)
  have "0 \<le> weighted_sum rnd (scores xs) / total_weight rnd (weights xs)"
       "weighted_sum rnd (scores xs) / total_weight rnd (weights xs) \<le> 1"
    using S True by simp_all
  then have "rnd 0 \<le> rnd (weighted_sum rnd (scores xs) / total_weight rnd (weights xs))"
      "rnd (weighted_sum rnd (scores xs) / total_weight rnd (weights xs)) \<le> rnd 1"
    using assms(1) unfolding rounding_def by blast+
  moreover have "rnd 0 = 0" "rnd 1 = 1" using assms(1) by (simp_all add: rounding_def)
  ultimately show ?thesis using True by (simp add: weighted_average_def)
qed

text \<open>
  With an idempotent rounding, the weights of the non-failed methods add up to at most
  what all the registered weights add up to.
\<close>

lemma successful_total_le:
  assumes "rounding rnd" "\<forall>x. rnd (rnd x) = rnd x"
    and "\<forall>(n, f, w) \<in> set reg. 0 < w"
    and "s \<le> t" "rnd s = s" "rnd t = t"
  shows "foldl (\<lambda>t w. rnd (t + w)) s (weights (successful reg mr))
       \<le> foldl (\<lambda>t w. rnd (t + w)) t (map (\<lambda>(n, f, w). w) reg)"
  using assms(3-)
proof (induction reg arbitrary: s t)
  case Nil
  then show ?case by (simp add: successful_Nil weights_def)
next
  case (Cons a reg)
  obtain n f w where a: "a = (n, f, w)" by (cases a)
  have mono: "\<And>x y. x \<le> y \<Longrightarrow> rnd x \<le> rnd y" using assms(1) by (simp add: rounding_def)
  have w: "0 < w" and rest: "\<forall>(n, f, w) \<in> set reg. 0 < w" using Cons.prems(1) by (simp_all add: a)
  have idem: "rnd (rnd (s + w)) = rnd (s + w)" "rnd (rnd (t + w)) = rnd (t + w)"
    using assms(2) by simp_all
  have keep: "rnd (s + w) \<le> rnd (t + w)" using Cons.prems(2) by (intro mono) simp
  have "t \<le> rnd (t + w)" using mono [of t "t + w"] w Cons.prems(4) by simp
  then have skip: "s \<le> rnd (t + w)" using Cons.prems(2) by simp
  have kept: "foldl (\<lambda>t w. rnd (t + w)) (rnd (s + w)) (weights (successful reg mr))
       \<le> foldl (\<lambda>t w. rnd (t + w)) (rnd (t + w)) (map (\<lambda>(n, f, w). w) reg)"
    using rest keep idem by (rule Cons.IH)
  have skipped: "foldl (\<lambda>t w. rnd (t + w)) s (weights (successful reg mr))
       \<le> foldl (\<lambda>t w. rnd (t + w)) (rnd (t + w)) (map (\<lambda>(n, f, w). w) reg)"
    using rest skip Cons.prems(3) idem(2) by (rule Cons.IH)
  show ?case using kept skipped
    by (simp add: a successful_Cons weights_def split: option.splits)
qed

text \<open>
  Every registered name has an entry after the first loop, and the only exception that
  leaves \<^verbatim>\<open>detect\<close> is one raised by the document store.
\<close>

lemma run_methods_dom:
  "dom (map_of (run_methods reg image_path mr)) = dom (map_of mr) \<union> fst ` set reg"
proof (induction reg arbitrary: mr)
  case Nil
  then show ?case by simp
next
  case (Cons a reg)
  obtain n f w where a: "a = (n, f, w)" by (cases a)
  show ?case by (auto simp: a Cons.IH update_conv')
qed

lemma detect_raises_only_store:
  assumes "detect rnd detection_methods update_detection_metadata elapsed image_path metadata_id
             = Inl msg"
  shows "\<exists>mid. metadata_id = Some mid \<and> mid \<noteq> []
           \<and> update_detection_metadata mid
                (update_data (detection_results rnd detection_methods elapsed image_path)) = Inl msg"
  using assms
  by (auto simp: detect_def detection_results_def update_metadata_def Let_def
        split: option.splits if_splits sum.splits)

text \<open>
  The non-failed outcomes of a run are the dictionaries that the calls returned without
  the key \<^verbatim>\<open>error\<close>: a call that raises leaves a failed entry, and a returned
  dictionary is stored as it is.
\<close>

lemma returned_Nil: "returned [] image_path = []"
  by (simp add: returned_def List.map_filter_simps)

lemma returned_Cons:
  "returned ((n, f, w) # reg) image_path =
     (case f image_path of
        Inl msg \<Rightarrow> returned reg image_path
      | Inr r \<Rightarrow> if error r = None then (n, w, r) # returned reg image_path
                 else returned reg image_path)"
  by (simp add: returned_def List.map_filter_simps split: sum.splits)

lemma non_failed_returned: "non_failed reg image_path = returned reg image_path"
proof (induction reg)
  case Nil
  show ?case by (simp add: non_failed_def outcomes_def returned_Nil)
next
  case (Cons a reg)
  obtain n f w where a: "a = (n, f, w)" by (cases a)
  have "non_failed (a # reg) image_path
      = (if error (run_method f image_path) = None
         then (n, w, run_method f image_path) # non_failed reg image_path
         else non_failed reg image_path)"
    by (simp add: a non_failed_def outcomes_def)
  then show ?case
    by (simp add: a Cons.IH returned_Cons run_method_def failed_result_def split: sum.splits)
qed

subsection \<open>The registry of the engine and the examples\<close>

lemma accepting_store_accepts: "store_accepts accepting_store metadata_id"
  by (auto simp: store_accepts_def accepting_store_def split: option.splits)

lemma default_names: "distinct (map fst (register_detection_methods rnd f1 f2 f3 f4 f5 f6))"
  by (simp add: register_detection_methods_def)

lemma default_weights:
  "\<forall>(n, f, w) \<in> set (register_detection_methods rnd64 f1 f2 f3 f4 f5 f6). 0 < w \<and> rnd64 w = w"
  by (simp add: register_detection_methods_def b64)

text \<open>The float sum of the six registered weights, in registry order, is 1.0.\<close>

lemma default_total:
  "total_weight rnd64 (map (\<lambda>(n, f, w). w) (register_detection_methods rnd64 f1 f2 f3 f4 f5 f6)) = 1"
  by (simp add: register_detection_methods_def total_weight_def b64)

lemma detect_Inr:
  "detect rnd detection_methods update_detection_metadata elapsed image_path metadata_id = Inr res \<Longrightarrow>
   res = detection_results rnd detection_methods elapsed image_path"
  by (auto simp: detect_def detection_results_def Let_def split: option.splits if_splits sum.splits)

lemmas example_defs =
  register_detection_methods_def non_failed_def outcomes_def run_method_def reports_def
  raises_def failed_result_def weighted_average_def weighted_sum_def total_weight_def
  scores_def weights_def significant_def

section \<open>Total failure\<close>

text \<open>
  Claim C3. When every registered detection method fails (its call raises, or the
  dictionary it returns has the key \<^verbatim>\<open>error\<close>), \<^verbatim>\<open>detect\<close> does not raise: it returns
  a result whose confidence score is exactly 0, whose verdict is false, whose list of
  contributing factors is empty, and which holds a failed entry for every registered
  method. This holds for any rounding and any registry, the store taking the update when
  one is requested (\<^verbatim>\<open>metadata_id\<close> is an argument of the source's \<^verbatim>\<open>detect\<close> only; without
  it the store is not called).
\<close>

theorem detect_all_failed:
  assumes "\<forall>(n, f, w) \<in> set detection_methods. error (run_method f image_path) \<noteq> None"
    and "store_accepts update_detection_metadata metadata_id"
  shows "\<exists>res. detect rnd detection_methods update_detection_metadata elapsed image_path metadata_id
               = Inr res
           \<and> res_confidence_score res = 0 \<and> \<not> res_is_ai_generated res
           \<and> contributing_factors res = [] \<and> res_processing_time res = elapsed
           \<and> (\<forall>(n, f, w) \<in> set detection_methods.
                 \<exists>r. map_of (method_results res) n = Some r \<and> error r \<noteq> None)"
proof -
  define mr where "mr = run_methods detection_methods image_path []"
  have failed: "error r \<noteq> None" if "map_of mr n = Some r" for n r
    using run_methods_origin [of detection_methods image_path "[]" n r] that assms(1)
    by (auto simp: mr_def)
  then have loop: "aggregate_loop rnd detection_methods mr (0, 0, []) = (0, 0, [])"
    by (intro aggregate_loop_all_failed) blast
  have "\<exists>r. map_of mr n = Some r \<and> error r \<noteq> None" if "(n, f, w) \<in> set detection_methods"
    for n f w
  proof -
    have "n \<in> fst ` set detection_methods" using that by (rule image_eqI [rotated]) simp
    then have "n \<in> dom (map_of mr)" unfolding mr_def run_methods_dom by simp
    then obtain r where "map_of mr n = Some r" by blast
    then show ?thesis using failed by blast
  qed
  then have entries: "\<forall>(n, f, w) \<in> set detection_methods.
      \<exists>r. map_of mr n = Some r \<and> error r \<noteq> None"
    by blast
  have "detection_results rnd detection_methods elapsed image_path
      = \<lparr>res_is_ai_generated = False, res_confidence_score = 0, res_processing_time = elapsed,
         method_results = mr, contributing_factors = []\<rparr>"
    using loop by (simp add: detection_results_def aggregate_results_def mr_def)
  then show ?thesis
    using detect_returns [OF assms(2), of rnd detection_methods elapsed image_path] entries
    by simp
qed

text \<open>
  The six registered methods all raise, binary64 arithmetic, and an update of the store
  is requested.
\<close>

theorem detect_all_failed_witness:
  "\<exists>res. detect rnd64
            (register_detection_methods rnd64 (raises ''no exif'') (raises ''no file'')
               (raises ''no file'') (raises ''no file'') (raises ''no model'')
               (raises ''no model''))
            accepting_store 2 ''img.png'' (Some ''65a0'') = Inr res
         \<and> res_confidence_score res = 0 \<and> \<not> res_is_ai_generated res
         \<and> contributing_factors res = [] \<and> res_processing_time res = 2"
proof -
  have "\<forall>(n, f, w) \<in> set (register_detection_methods rnd64 (raises ''no exif'')
            (raises ''no file'') (raises ''no file'') (raises ''no file'') (raises ''no model'')
            (raises ''no model'')).
          error (run_method f ''img.png'') \<noteq> None"
    by (simp add: register_detection_methods_def run_method_def raises_def failed_result_def)
  from detect_all_failed [OF this accepting_store_accepts,
      where rnd = rnd64 and elapsed = 2 and metadata_id = "Some ''65a0''"]
  show ?thesis by blast
qed

section \<open>Contributing factors\<close>

text \<open>
  Claim C1, as the specification states it, fails. The methods registered are the six of
  \<^verbatim>\<open>register_detection_methods\<close>; \<^verbatim>\<open>ela_analysis\<close> reports an AI-generated image with
  confidence 0.7, \<^verbatim>\<open>prnu_analysis\<close> reports an authentic one with confidence 0.1, the
  other four raise. The confidence score is 0.3999999999999999 and the verdict is false, yet the
  contributing factors hold \<^verbatim>\<open>ela_analysis\<close>, whose own verdict is true.
\<close>

theorem contributing_factors_counterexample:
  "detect rnd64
     (register_detection_methods rnd64 (raises ''no exif'') (reports True (rnd64 (7/10)))
        (reports False (rnd64 (1/10))) (raises ''no file'') (raises ''no model'')
        (raises ''no model''))
     accepting_store 1 ''img.png'' None
   = Inr (detection_results rnd64
       (register_detection_methods rnd64 (raises ''no exif'') (reports True (rnd64 (7/10)))
          (reports False (rnd64 (1/10))) (raises ''no file'') (raises ''no model'')
          (raises ''no model'')) 1 ''img.png'')
   \<and> \<not> res_is_ai_generated (detection_results rnd64
       (register_detection_methods rnd64 (raises ''no exif'') (reports True (rnd64 (7/10)))
          (reports False (rnd64 (1/10))) (raises ''no file'') (raises ''no model'')
          (raises ''no model'')) 1 ''img.png'')
   \<and> contributing_factors (detection_results rnd64
       (register_detection_methods rnd64 (raises ''no exif'') (reports True (rnd64 (7/10)))
          (reports False (rnd64 (1/10))) (raises ''no file'') (raises ''no model'')
          (raises ''no model'')) 1 ''img.png'')
     = [\<lparr>factor = ''ela_analysis'', weight = rnd64 (20/100), contribution = rnd64 (7/10)\<rparr>]
   \<and> is_ai_generated (run_method (reports True (rnd64 (7/10))) ''img.png'')"
  by (simp add: detect_returns accepting_store_accepts detection_results_eq default_names)
     (simp add: example_defs b64)

text \<open>
  Claim C1, amended: the list holds exactly the non-failed methods whose own verdict is
  true and whose confidence is strictly greater than the literal \<^verbatim>\<open>0.6\<close>, each as
  \<^verbatim>\<open>{factor: name, weight, contribution: confidence}\<close>, in registry order, whatever the
  final verdict is. So it never holds a method whose verdict is false or whose confidence
  is not above the literal.
\<close>

theorem contributing_factors_exact:
  assumes "distinct (map fst detection_methods)"
    and "detect rnd detection_methods update_detection_metadata elapsed image_path metadata_id
           = Inr res"
  shows "contributing_factors res =
           map (\<lambda>(n, w, r). \<lparr>factor = n, weight = w, contribution = confidence_score r\<rparr>)
             (filter (\<lambda>(n, w, r). error r = None \<and> is_ai_generated r
                                   \<and> rnd (3/5) < confidence_score r)
                (outcomes detection_methods image_path))
         \<and> (\<forall>x \<in> set (contributing_factors res).
               rnd (3/5) < contribution x
               \<and> (\<exists>f. (factor x, f, weight x) \<in> set detection_methods
                      \<and> error (run_method f image_path) = None
                      \<and> is_ai_generated (run_method f image_path)
                      \<and> confidence_score (run_method f image_path) = contribution x))"
proof -
  have res: "res = detection_results rnd detection_methods elapsed image_path"
    using assms(2) by (rule detect_Inr)
  have cf: "contributing_factors res = significant rnd (non_failed detection_methods image_path)"
    unfolding res detection_results_eq [OF assms(1)] by simp
  have eq: "significant rnd (non_failed detection_methods image_path) =
           map (\<lambda>(n, w, r). \<lparr>factor = n, weight = w, contribution = confidence_score r\<rparr>)
             (filter (\<lambda>(n, w, r). error r = None \<and> is_ai_generated r
                                   \<and> rnd (3/5) < confidence_score r)
                (outcomes detection_methods image_path))"
    by (simp add: significant_def non_failed_def split_def conj_ac)
  show ?thesis unfolding cf eq
    by (auto simp: outcomes_def)
qed

theorem contributing_factors_exact_witness:
  "contributing_factors (detection_results rnd64
       (register_detection_methods rnd64 (raises ''no exif'') (reports True (rnd64 (7/10)))
          (reports False (rnd64 (1/10))) (raises ''no file'') (raises ''no model'')
          (raises ''no model'')) 1 ''img.png'')
     = [\<lparr>factor = ''ela_analysis'', weight = rnd64 (20/100), contribution = rnd64 (7/10)\<rparr>]
   \<and> rnd64 (3/5) < rnd64 (7/10)"
proof -
  let ?reg = "register_detection_methods rnd64 (raises ''no exif'') (reports True (rnd64 (7/10)))
          (reports False (rnd64 (1/10))) (raises ''no file'') (raises ''no model'')
          (raises ''no model'')"
  have "detect rnd64 ?reg accepting_store 1 ''img.png'' None
          = Inr (detection_results rnd64 ?reg 1 ''img.png'')"
    by (simp add: detect_returns accepting_store_accepts)
  from contributing_factors_exact [OF default_names this]
  show ?thesis
    by (simp add: outcomes_def register_detection_methods_def run_method_def reports_def
          raises_def failed_result_def b64)
qed

section \<open>Weighted average and verdict\<close>

lemma weighted_sum_exact: "weighted_sum (\<lambda>x. x) wcs = (\<Sum>(w, c)\<leftarrow>wcs. w * c)"
proof -
  have "foldl (\<lambda>s (w, c). s + w * c) s wcs = s + (\<Sum>(w, c)\<leftarrow>wcs. w * c)" for s
    by (induction wcs arbitrary: s) (auto simp: algebra_simps)
  from this [of 0] show ?thesis by (simp add: weighted_sum_def)
qed

lemma total_weight_exact: "total_weight (\<lambda>x. x) ws = sum_list ws"
proof -
  have "foldl (\<lambda>t w. t + w) t ws = t + sum_list ws" for t
    by (induction ws arbitrary: t) (auto simp: algebra_simps)
  from this [of 0] show ?thesis by (simp add: total_weight_def)
qed

lemma non_failed_weights:
  "\<forall>(n, f, w) \<in> set reg. P w \<Longrightarrow> \<forall>w \<in> set (weights (non_failed reg image_path)). P w"
  by (auto simp: weights_def non_failed_def outcomes_def)

text \<open>
  Claim C2. When at least one registered method did not fail, \<^verbatim>\<open>detect\<close> returns the
  confidence score \<open>S / W\<close>, where \<open>S\<close> adds \<open>weight * confidence\<close> and \<open>W\<close> adds
  \<open>weight\<close> over the non-failed methods only, and the verdict is true exactly when the
  score is strictly greater than 0.5. In the code the sums and the quotient are float
  operations (\<open>weighted_sum\<close>, \<open>total_weight\<close>, in registry order); in exact arithmetic
  they are the sums of the formula (last conjunct). The weights are positive values of
  the float format, and the store takes the update when one is requested.
\<close>

theorem detect_weighted_average:
  assumes "rounding rnd"
    and "distinct (map fst detection_methods)"
    and "\<forall>(n, f, w) \<in> set detection_methods. 0 < w \<and> rnd w = w"
    and "non_failed detection_methods image_path \<noteq> []"
    and "store_accepts update_detection_metadata metadata_id"
  shows "\<exists>res. detect rnd detection_methods update_detection_metadata elapsed image_path metadata_id
                 = Inr res
           \<and> res_confidence_score res =
               rnd (weighted_sum rnd (scores (non_failed detection_methods image_path))
                    / total_weight rnd (weights (non_failed detection_methods image_path)))
           \<and> res_is_ai_generated res = (1/2 < res_confidence_score res)
           \<and> ((\<forall>x. rnd x = x) \<longrightarrow>
                res_confidence_score res =
                  (\<Sum>(n, w, r)\<leftarrow>non_failed detection_methods image_path. w * confidence_score r)
                  / (\<Sum>(n, w, r)\<leftarrow>non_failed detection_methods image_path. w))"
proof -
  let ?xs = "non_failed detection_methods image_path"
  have "weights ?xs \<noteq> []" using assms(4) by (simp add: weights_def)
  moreover have "\<forall>w \<in> set (weights ?xs). 0 < w \<and> rnd w = w"
    using assms(3) by (rule non_failed_weights)
  ultimately have W: "0 < total_weight rnd (weights ?xs)"
    using assms(1) by (intro total_weight_pos)
  have avg: "weighted_average rnd ?xs
      = rnd (weighted_sum rnd (scores ?xs) / total_weight rnd (weights ?xs))"
    using W by (simp add: weighted_average_def)
  have exact: "weighted_sum rnd (scores ?xs) = (\<Sum>(n, w, r)\<leftarrow>?xs. w * confidence_score r)"
      "total_weight rnd (weights ?xs) = (\<Sum>(n, w, r)\<leftarrow>?xs. w)" if "\<forall>x. rnd x = x"
  proof -
    from that have id: "rnd = (\<lambda>x. x)" by auto
    show "weighted_sum rnd (scores ?xs) = (\<Sum>(n, w, r)\<leftarrow>?xs. w * confidence_score r)"
      unfolding id weighted_sum_exact by (simp add: scores_def comp_def split_def)
    show "total_weight rnd (weights ?xs) = (\<Sum>(n, w, r)\<leftarrow>?xs. w)"
      unfolding id total_weight_exact by (simp add: weights_def comp_def split_def)
  qed
  show ?thesis
    using detect_returns [OF assms(5), of rnd detection_methods elapsed image_path]
      detection_results_eq [OF assms(2), of rnd elapsed image_path] avg exact
    by auto
qed

text \<open>
  The six registered methods, two of them succeeding. In binary64 the score is the float
  \<open>(0.2 * 0.7 + 0.2 * 0.1) / (0.2 + 0.2)\<close>, which is the float 0.3999999999999999; in exact arithmetic
  it is that quotient of rationals, \<open>2/5\<close>.
\<close>

theorem detect_weighted_average_witness:
  "(\<exists>res. detect rnd64
            (register_detection_methods rnd64 (raises ''no exif'') (reports True (rnd64 (7/10)))
               (reports False (rnd64 (1/10))) (raises ''no file'') (raises ''no model'')
               (raises ''no model''))
            accepting_store 2 ''img.png'' (Some ''65a0'') = Inr res
         \<and> res_confidence_score res = 900719925474099 / 2251799813685248
         \<and> \<not> res_is_ai_generated res)
   \<and> (\<exists>res. detect (\<lambda>x. x)
            (register_detection_methods (\<lambda>x. x) (raises ''no exif'') (reports True (7/10))
               (reports False (1/10)) (raises ''no file'') (raises ''no model'')
               (raises ''no model''))
            accepting_store 2 ''img.png'' (Some ''65a0'') = Inr res
         \<and> res_confidence_score res = (20/100 * (7/10) + 20/100 * (1/10)) / (20/100 + 20/100)
         \<and> \<not> res_is_ai_generated res)"
proof
  let ?reg = "register_detection_methods rnd64 (raises ''no exif'') (reports True (rnd64 (7/10)))
               (reports False (rnd64 (1/10))) (raises ''no file'') (raises ''no model'')
               (raises ''no model'')"
  have nf: "non_failed ?reg ''img.png'' \<noteq> []"
    by (simp add: example_defs)
  have "rnd64 (weighted_sum rnd64 (scores (non_failed ?reg ''img.png''))
               / total_weight rnd64 (weights (non_failed ?reg ''img.png'')))
        = 900719925474099 / 2251799813685248"
    by (simp add: example_defs b64)
  with detect_weighted_average [OF rounding_rnd64 default_names default_weights nf
      accepting_store_accepts, of 2 "Some ''65a0''"]
  show "\<exists>res. detect rnd64 ?reg accepting_store 2 ''img.png'' (Some ''65a0'') = Inr res
         \<and> res_confidence_score res = 900719925474099 / 2251799813685248
         \<and> \<not> res_is_ai_generated res"
    by auto
next
  let ?reg = "register_detection_methods (\<lambda>x. x) (raises ''no exif'') (reports True (7/10))
               (reports False (1/10)) (raises ''no file'') (raises ''no model'')
               (raises ''no model'')"
  have nf: "non_failed ?reg ''img.png'' \<noteq> []"
    by (simp add: example_defs)
  have w: "\<forall>(n, f, w) \<in> set ?reg. 0 < w \<and> w = w"
    by (simp add: register_detection_methods_def)
  have "(\<Sum>(n, w, r)\<leftarrow>non_failed ?reg ''img.png''. w * confidence_score r)
          / (\<Sum>(n, w, r)\<leftarrow>non_failed ?reg ''img.png''. w)
        = (20/100 * (7/10) + 20/100 * (1/10)) / (20/100 + 20/100)"
    by (simp add: example_defs)
  with detect_weighted_average [OF rounding_exact default_names w nf
      accepting_store_accepts, of 2 "Some ''65a0''"]
  show "\<exists>res. detect (\<lambda>x. x) ?reg accepting_store 2 ''img.png'' (Some ''65a0'') = Inr res
         \<and> res_confidence_score res = (20/100 * (7/10) + 20/100 * (1/10)) / (20/100 + 20/100)
         \<and> \<not> res_is_ai_generated res"
    by auto
qed

section \<open>Bounds\<close>

lemma successful_set:
  "(n, w, r) \<in> set (successful reg mr) \<Longrightarrow>
   (\<exists>f. (n, f, w) \<in> set reg) \<and> (n, r) \<in> set mr \<and> error r = None"
proof (induction reg)
  case Nil
  then show ?case by (simp add: successful_Nil)
next
  case (Cons a reg)
  obtain n' f' w' where a: "a = (n', f', w')" by (cases a)
  from Cons show ?case
    by (auto simp: a successful_Cons split: option.splits if_splits dest: map_of_SomeD)
qed

text \<open>
  Claim C6. When the confidence of every non-failed detector outcome lies in \<open>[0, 1]\<close>,
  the registered weights are positive values of the float format and their float sum,
  added in registry order, is below \<open>2 ^ 1024\<close> (it does not overflow; the sum of the
  engine's six weights is 1.0), the confidence score that \<^verbatim>\<open>aggregate_results\<close> stores
  lies in \<open>[0, 1]\<close>: for every such registry, every \<^verbatim>\<open>method_results\<close> dictionary, and
  every monotone rounding that keeps 0 and 1, binary64 and exact arithmetic among them.
  No operation of the loop overflows (last conjunct, for an idempotent rounding): the
  sum of the products is at most the sum of the weights of the non-failed methods, which
  is below \<open>2 ^ 1024\<close>; both sums only grow along the loop, and a product
  \<^verbatim>\<open>weight * confidence\<close> is at most the weight.
\<close>

theorem confidence_in_unit_interval:
  assumes "rounding rnd"
    and "\<forall>(n, f, w) \<in> set detection_methods. 0 < w \<and> rnd w = w"
    and "total_weight rnd (map (\<lambda>(n, f, w). w) detection_methods) < 2 ^ 1024"
    and "\<forall>(n, r) \<in> set (method_results res).
           error r = None \<longrightarrow> 0 \<le> confidence_score r \<and> confidence_score r \<le> 1"
  shows "0 \<le> res_confidence_score (aggregate_results rnd detection_methods res)
       \<and> res_confidence_score (aggregate_results rnd detection_methods res) \<le> 1
       \<and> ((\<forall>x. rnd (rnd x) = rnd x) \<longrightarrow>
            weighted_sum rnd (scores (successful detection_methods (method_results res)))
              \<le> total_weight rnd (weights (successful detection_methods (method_results res)))
            \<and> total_weight rnd (weights (successful detection_methods (method_results res)))
              < 2 ^ 1024)"
proof -
  let ?xs = "successful detection_methods (method_results res)"
  have xs: "\<forall>(n, w, r) \<in> set ?xs.
          0 < w \<and> rnd w = w \<and> 0 \<le> confidence_score r \<and> confidence_score r \<le> 1"
    using assms(2,4) by (fastforce dest: successful_set)
  have fst: "map fst (scores ?xs) = weights ?xs"
    by (simp add: scores_def weights_def case_prod_beta)
  have "\<forall>(w, c) \<in> set (scores ?xs). 0 < w \<and> rnd w = w \<and> 0 \<le> c \<and> c \<le> 1"
    using xs by (auto simp: scores_def)
  from weighted_sum_fold_bounds [OF assms(1) this, of 0 0]
  have S: "weighted_sum rnd (scores ?xs) \<le> total_weight rnd (weights ?xs)"
    by (simp add: weighted_sum_def total_weight_def fst)
  have W: "total_weight rnd (weights ?xs) < 2 ^ 1024" if "\<forall>x. rnd (rnd x) = rnd x"
  proof -
    have pos: "\<forall>(n, f, w) \<in> set detection_methods. 0 < w" using assms(2) by auto
    have z: "rnd 0 = 0" using assms(1) by (simp add: rounding_def)
    have "total_weight rnd (weights ?xs)
        \<le> total_weight rnd (map (\<lambda>(n, f, w). w) detection_methods)"
      unfolding total_weight_def
      using assms(1) that pos order_refl z z by (rule successful_total_le)
    then show ?thesis using assms(3) by simp
  qed
  from weighted_average_bounds [OF assms(1) xs] S W
  show ?thesis by (simp add: aggregate_results_eq)
qed

text \<open>
  The engine's registry in binary64, \<^verbatim>\<open>ela_analysis\<close> and \<^verbatim>\<open>prnu_analysis\<close> succeeding
  with the confidences 0.7 and 0.1.
\<close>

theorem confidence_in_unit_interval_witness:
  "0 \<le> res_confidence_score (aggregate_results rnd64
          (register_detection_methods rnd64 (raises ''no exif'') (reports True (rnd64 (7/10)))
             (reports False (rnd64 (1/10))) (raises ''no file'') (raises ''no model'')
             (raises ''no model''))
          \<lparr>res_is_ai_generated = False, res_confidence_score = 0, res_processing_time = 0,
           method_results =
             [(''metadata_analysis'', failed_result ''no exif''),
              (''ela_analysis'', run_method (reports True (rnd64 (7/10))) ''img.png''),
              (''prnu_analysis'', run_method (reports False (rnd64 (1/10))) ''img.png'')],
           contributing_factors = []\<rparr>)
   \<and> res_confidence_score (aggregate_results rnd64
          (register_detection_methods rnd64 (raises ''no exif'') (reports True (rnd64 (7/10)))
             (reports False (rnd64 (1/10))) (raises ''no file'') (raises ''no model'')
             (raises ''no model''))
          \<lparr>res_is_ai_generated = False, res_confidence_score = 0, res_processing_time = 0,
           method_results =
             [(''metadata_analysis'', failed_result ''no exif''),
              (''ela_analysis'', run_method (reports True (rnd64 (7/10))) ''img.png''),
              (''prnu_analysis'', run_method (reports False (rnd64 (1/10))) ''img.png'')],
           contributing_factors = []\<rparr>) \<le> 1
   \<and> total_weight rnd64 (weights (successful
          (register_detection_methods rnd64 (raises ''no exif'') (reports True (rnd64 (7/10)))
             (reports False (rnd64 (1/10))) (raises ''no file'') (raises ''no model'')
             (raises ''no model''))
          [(''metadata_analysis'', failed_result ''no exif''),
           (''ela_analysis'', run_method (reports True (rnd64 (7/10))) ''img.png''),
           (''prnu_analysis'', run_method (reports False (rnd64 (1/10))) ''img.png'')]))
       < 2 ^ 1024"
proof -
  let ?reg = "register_detection_methods rnd64 (raises ''no exif'') (reports True (rnd64 (7/10)))
             (reports False (rnd64 (1/10))) (raises ''no file'') (raises ''no model'')
             (raises ''no model'')"
  let ?mr = "[(''metadata_analysis'', failed_result ''no exif''),
              (''ela_analysis'', run_method (reports True (rnd64 (7/10))) ''img.png''),
              (''prnu_analysis'', run_method (reports False (rnd64 (1/10))) ''img.png'')]"
  let ?res = "\<lparr>res_is_ai_generated = False, res_confidence_score = 0, res_processing_time = 0,
           method_results = ?mr, contributing_factors = []\<rparr>"
  have total: "total_weight rnd64 (map (\<lambda>(n, f, w). w) ?reg) < 2 ^ 1024"
    by (simp add: default_total)
  have conf: "\<forall>(n, r) \<in> set (method_results ?res).
        error r = None \<longrightarrow> 0 \<le> confidence_score r \<and> confidence_score r \<le> 1"
    by (simp add: run_method_def reports_def failed_result_def b64)
  have mr: "method_results ?res = ?mr" by simp
  from confidence_in_unit_interval [OF rounding_rnd64 default_weights total conf]
  show ?thesis unfolding mr using rnd64_idem by blast
qed

section \<open>Failure isolation\<close>

lemma non_failed_remove1:
  "error (run_method f image_path) \<noteq> None \<Longrightarrow>
   non_failed (remove1 (n, f, w) reg) image_path = non_failed reg image_path"
proof (induction reg)
  case Nil
  then show ?case by simp
next
  case (Cons a reg)
  obtain n' f' w' where a: "a = (n', f', w')" by (cases a)
  from Cons show ?case by (auto simp: a non_failed_def outcomes_def)
qed

text \<open>
  Claim C4. When the call of one registered method raises, \<^verbatim>\<open>detect\<close> does not raise:
  it records for that method the failed dictionary with the text of the exception; it
  records for every registered method the outcome of its own call, the dictionary the
  call returned or the failed dictionary of the exception it raised (so each of them was
  called); and the score, the verdict and the contributing factors are those computed
  over the registry without the method that raised: the weighted average over the
  dictionaries that the remaining methods returned without the key \<^verbatim>\<open>error\<close>, divided
  by the sum of their weights alone. The store takes the update when one is requested.
\<close>

theorem detect_isolates_failure:
  assumes "distinct (map fst detection_methods)"
    and "(n, f, w) \<in> set detection_methods"
    and "f image_path = Inl msg"
    and "store_accepts update_detection_metadata metadata_id"
  shows "\<exists>res. detect rnd detection_methods update_detection_metadata elapsed image_path metadata_id
                 = Inr res
           \<and> map_of (method_results res) n = Some (failed_result msg)
           \<and> error (failed_result msg) = Some msg
           \<and> (\<forall>(n', f', w') \<in> set detection_methods.
                 \<forall>r. f' image_path = Inr r \<longrightarrow> map_of (method_results res) n' = Some r)
           \<and> (\<forall>(n', f', w') \<in> set detection_methods.
                 \<forall>msg'. f' image_path = Inl msg' \<longrightarrow>
                   map_of (method_results res) n' = Some (failed_result msg'))
           \<and> res_confidence_score res =
               weighted_average rnd (returned (remove1 (n, f, w) detection_methods) image_path)
           \<and> res_is_ai_generated res = (1/2 < res_confidence_score res)
           \<and> contributing_factors res =
               significant rnd (returned (remove1 (n, f, w) detection_methods) image_path)"
proof -
  let ?res = "detection_results rnd detection_methods elapsed image_path"
  have failed: "run_method f image_path = failed_result msg"
    using assms(3) by (simp add: run_method_def)
  then have "error (run_method f image_path) \<noteq> None" by (simp add: failed_result_def)
  then have "non_failed (remove1 (n, f, w) detection_methods) image_path
               = non_failed detection_methods image_path"
    by (rule non_failed_remove1)
  then have nf: "returned (remove1 (n, f, w) detection_methods) image_path
               = non_failed detection_methods image_path"
    by (simp add: non_failed_returned)
  have mr: "method_results ?res = run_methods detection_methods image_path []"
    by (simp add: detection_results_eq [OF assms(1)])
  have entry: "map_of (method_results ?res) n' = Some (run_method f' image_path)"
    if "(n', f', w') \<in> set detection_methods" for n' f' w'
    unfolding mr using assms(1) that by (rule run_methods_lookup)
  have ret: "\<forall>(n', f', w') \<in> set detection_methods.
      \<forall>r. f' image_path = Inr r \<longrightarrow> map_of (method_results ?res) n' = Some r"
    using entry by (auto simp: run_method_def)
  have exc: "\<forall>(n', f', w') \<in> set detection_methods.
      \<forall>msg'. f' image_path = Inl msg' \<longrightarrow>
        map_of (method_results ?res) n' = Some (failed_result msg')"
    using entry by (auto simp: run_method_def)
  have "map_of (method_results ?res) n = Some (failed_result msg)"
    using entry [OF assms(2)] failed by simp
  then show ?thesis
    using detect_returns [OF assms(4), of rnd detection_methods elapsed image_path] ret exc
    by (simp add: nf detection_results_eq [OF assms(1)] failed_result_def)
qed

text \<open>
  The engine's registry in binary64: \<^verbatim>\<open>metadata_analysis\<close> raises and the other five
  methods report. The entries of \<^verbatim>\<open>texture_analysis\<close> and \<^verbatim>\<open>vit_model\<close> are the
  dictionaries they returned, and the score is the float
  \<open>(0.2 * 0.75 + 0.2 * 0.75 + 0.15 * 0.25 + 0.15 * 0.875 + 0.15 * 0.875) / 0.8500000000000001\<close>,
  which is 0.7058823529411764: the weight 0.15 of the method that raised is in neither
  sum.
\<close>

theorem detect_isolates_failure_witness:
  "\<exists>res. detect rnd64
            (register_detection_methods rnd64 (raises ''no exif'') (reports True (3/4))
               (reports True (3/4)) (reports False (1/4)) (reports True (7/8))
               (reports True (7/8)))
            accepting_store 2 ''img.png'' (Some ''65a0'') = Inr res
         \<and> map_of (method_results res) ''metadata_analysis''
             = Some \<lparr>is_ai_generated = False, confidence_score = 0, error = Some ''no exif'',
                 anomalies = None, error_level_score = None, ela_image_path = None,
                 pattern_score = None, smoothness_score = None, processing_time = None\<rparr>
         \<and> map_of (method_results res) ''texture_analysis''
             = Some \<lparr>is_ai_generated = False, confidence_score = 1/4, error = None,
                 anomalies = None, error_level_score = None, ela_image_path = None,
                 pattern_score = None, smoothness_score = None, processing_time = None\<rparr>
         \<and> map_of (method_results res) ''vit_model''
             = Some \<lparr>is_ai_generated = True, confidence_score = 7/8, error = None,
                 anomalies = None, error_level_score = None, ela_image_path = None,
                 pattern_score = None, smoothness_score = None, processing_time = None\<rparr>
         \<and> res_confidence_score res = 3179011501673291 / 4503599627370496
         \<and> res_is_ai_generated res
         \<and> map factor (contributing_factors res)
             = [''ela_analysis'', ''prnu_analysis'', ''vit_model'', ''resnet_model'']"
proof -
  let ?reg = "register_detection_methods rnd64 (raises ''no exif'') (reports True (3/4))
               (reports True (3/4)) (reports False (1/4)) (reports True (7/8))
               (reports True (7/8))"
  let ?rest = "returned (remove1 (''metadata_analysis'', raises ''no exif'', rnd64 (15/100)) ?reg)
                 ''img.png''"
  have mem: "(''metadata_analysis'', raises ''no exif'', rnd64 (15/100)) \<in> set ?reg"
    by (simp add: register_detection_methods_def)
  have raised: "raises ''no exif'' ''img.png'' = Inl ''no exif''"
    by (simp add: raises_def)
  have st: "store_accepts accepting_store (Some ''65a0'')"
    by (rule accepting_store_accepts)
  from detect_isolates_failure [OF default_names mem raised st, where rnd = rnd64 and elapsed = 2]
  obtain res where res: "detect rnd64 ?reg accepting_store 2 ''img.png'' (Some ''65a0'') = Inr res"
    and failed: "map_of (method_results res) ''metadata_analysis'' = Some (failed_result ''no exif'')"
    and ret: "\<forall>(n', f', w') \<in> set ?reg.
                \<forall>r. f' ''img.png'' = Inr r \<longrightarrow> map_of (method_results res) n' = Some r"
    and score: "res_confidence_score res = weighted_average rnd64 ?rest"
    and verdict: "res_is_ai_generated res = (1/2 < res_confidence_score res)"
    and factors: "contributing_factors res = significant rnd64 ?rest"
    by blast
  have rest: "?rest
      = [(''ela_analysis'', rnd64 (20/100), \<lparr>is_ai_generated = True, confidence_score = 3/4, error = None,
                 anomalies = None, error_level_score = None, ela_image_path = None,
                 pattern_score = None, smoothness_score = None, processing_time = None\<rparr>),
         (''prnu_analysis'', rnd64 (20/100), \<lparr>is_ai_generated = True, confidence_score = 3/4, error = None,
                 anomalies = None, error_level_score = None, ela_image_path = None,
                 pattern_score = None, smoothness_score = None, processing_time = None\<rparr>),
         (''texture_analysis'', rnd64 (15/100), \<lparr>is_ai_generated = False, confidence_score = 1/4, error = None,
                 anomalies = None, error_level_score = None, ela_image_path = None,
                 pattern_score = None, smoothness_score = None, processing_time = None\<rparr>),
         (''vit_model'', rnd64 (15/100), \<lparr>is_ai_generated = True, confidence_score = 7/8, error = None,
                 anomalies = None, error_level_score = None, ela_image_path = None,
                 pattern_score = None, smoothness_score = None, processing_time = None\<rparr>),
         (''resnet_model'', rnd64 (15/100), \<lparr>is_ai_generated = True, confidence_score = 7/8, error = None,
                 anomalies = None, error_level_score = None, ela_image_path = None,
                 pattern_score = None, smoothness_score = None, processing_time = None\<rparr>)]"
    by (simp add: register_detection_methods_def returned_Cons returned_Nil reports_def raises_def)
  have avg: "weighted_average rnd64 ?rest = 3179011501673291 / 4503599627370496"
    unfolding rest
    by (simp add: weighted_average_def weighted_sum_def total_weight_def scores_def weights_def b64)
  have sig: "map factor (significant rnd64 ?rest)
      = [''ela_analysis'', ''prnu_analysis'', ''vit_model'', ''resnet_model'']"
    unfolding rest by (simp add: significant_def b64)
  have entries:
    "map_of (method_results res) ''texture_analysis''
       = Some \<lparr>is_ai_generated = False, confidence_score = 1/4, error = None,
                 anomalies = None, error_level_score = None, ela_image_path = None,
                 pattern_score = None, smoothness_score = None, processing_time = None\<rparr>"
    "map_of (method_results res) ''vit_model''
       = Some \<lparr>is_ai_generated = True, confidence_score = 7/8, error = None,
                 anomalies = None, error_level_score = None, ela_image_path = None,
                 pattern_score = None, smoothness_score = None, processing_time = None\<rparr>"
    using ret by (simp_all add: register_detection_methods_def reports_def)
  have "res_confidence_score res = 3179011501673291 / 4503599627370496"
    using score avg by simp
  moreover from this have "res_is_ai_generated res" using verdict by simp
  moreover have "map factor (contributing_factors res)
      = [''ela_analysis'', ''prnu_analysis'', ''vit_model'', ''resnet_model'']"
    using factors sig by simp
  ultimately show ?thesis
    using res failed entries by (intro exI [of _ res]) (simp add: failed_result_def)
qed

section \<open>A single successful method\<close>

lemma non_failed_all_failed:
  "\<forall>(n, f, w) \<in> set reg. error (run_method f image_path) \<noteq> None \<Longrightarrow>
   non_failed reg image_path = []"
  by (induction reg) (auto simp: non_failed_def outcomes_def)

lemma non_failed_single:
  assumes "distinct (map fst reg)" "(n, f, w) \<in> set reg"
    and "error (run_method f image_path) = None"
    and "\<forall>(n', f', w') \<in> set reg. n' \<noteq> n \<longrightarrow> error (run_method f' image_path) \<noteq> None"
  shows "non_failed reg image_path = [(n, w, run_method f image_path)]"
  using assms
proof (induction reg)
  case Nil
  then show ?case by simp
next
  case (Cons a reg)
  obtain n' f' w' where a: "a = (n', f', w')" by (cases a)
  show ?case
  proof (cases "a = (n, f, w)")
    case True
    then have "\<forall>(n', f', w') \<in> set reg. n' \<noteq> n" using Cons.prems(1) by (auto simp: image_iff)
    with Cons.prems(4)
    have "\<forall>(n', f', w') \<in> set reg. error (run_method f' image_path) \<noteq> None" by auto
    then have "non_failed reg image_path = []" by (rule non_failed_all_failed)
    then show ?thesis using True Cons.prems(3) by (simp add: non_failed_def outcomes_def)
  next
    case False
    then have mem: "(n, f, w) \<in> set reg" using Cons.prems(2) by simp
    then have "n' \<noteq> n" using Cons.prems(1) by (auto simp: a image_iff)
    then have "error (run_method f' image_path) \<noteq> None" using Cons.prems(4) by (auto simp: a)
    moreover have "non_failed reg image_path = [(n, w, run_method f image_path)]"
      using Cons.prems mem by (intro Cons.IH) auto
    ultimately show ?thesis by (auto simp: a non_failed_def outcomes_def)
  qed
qed

text \<open>
  Claim C5, as the specification states it, fails in binary64. Only \<^verbatim>\<open>metadata_analysis\<close>
  succeeds, with the confidence 0.11 and the weight 0.15: the score is the float
  \<open>(0.15 * 0.11) / 0.15 = 0.11000000000000001\<close> (3963167672086037 / 2^55), the float
  next above 0.11 (7926335344172073 / 2^56). The weight does not cancel.
\<close>

theorem single_success_counterexample:
  "detect rnd64
     (register_detection_methods rnd64 (reports False (rnd64 (11/100))) (raises ''no file'')
        (raises ''no file'') (raises ''no file'') (raises ''no model'') (raises ''no model''))
     accepting_store 1 ''img.png'' None
   = Inr (detection_results rnd64
       (register_detection_methods rnd64 (reports False (rnd64 (11/100))) (raises ''no file'')
          (raises ''no file'') (raises ''no file'') (raises ''no model'') (raises ''no model''))
       1 ''img.png'')
   \<and> res_confidence_score (detection_results rnd64
       (register_detection_methods rnd64 (reports False (rnd64 (11/100))) (raises ''no file'')
          (raises ''no file'') (raises ''no file'') (raises ''no model'') (raises ''no model''))
       1 ''img.png'')
     = 3963167672086037 / 36028797018963968
   \<and> rnd64 (11/100) = 7926335344172073 / 72057594037927936
   \<and> res_confidence_score (detection_results rnd64
       (register_detection_methods rnd64 (reports False (rnd64 (11/100))) (raises ''no file'')
          (raises ''no file'') (raises ''no file'') (raises ''no model'') (raises ''no model''))
       1 ''img.png'')
     \<noteq> rnd64 (11/100)"
  by (simp add: detect_returns accepting_store_accepts detection_results_eq default_names)
     (simp add: example_defs b64)

text \<open>
  The verdict of a single success is \<open>c > 0.5\<close> only for a weight whose half is a
  float. With the weight \<open>3 / 2 ^ 1074\<close> (the float 1.5e-323, which the engine does not
  register) and the confidence 0.5, the product rounds up to \<open>2 / 2 ^ 1074\<close>, the score
  is the float \<open>2/3\<close> and the verdict is true.
\<close>

lemma tiny_weight_verdict:
  "res_confidence_score (detection_results rnd64
       [(''metadata_analysis'', reports False (1/2), 3 / 2 ^ 1074)] 1 ''img.png'') = rnd64 (2/3)
   \<and> res_is_ai_generated (detection_results rnd64
       [(''metadata_analysis'', reports False (1/2), 3 / 2 ^ 1074)] 1 ''img.png'')"
proof -
  define reg :: registry where "reg = [(''metadata_analysis'', reports False (1/2), 3 / 2 ^ 1074)]"
  have w: "rnd64 (3 / 2 ^ 1074) = 3 / 2 ^ 1074"
    using rnd64_subnormal [of "3 / 2 ^ 1074"] rhe_of_int [of 3] by (simp add: power_int_minus)
  have "rhe (3/2) = 2" by (rule rhe_nearest) simp
  then have p: "rnd64 (3 / 2 ^ 1075) = 2 / 2 ^ 1074"
    using rnd64_subnormal [of "3 / 2 ^ 1075"] by (simp add: power_int_minus)
  have p': "rnd64 (2 / 2 ^ 1074) = 2 / 2 ^ 1074"
    using rnd64_subnormal [of "2 / 2 ^ 1074"] rhe_of_int [of 2] by (simp add: power_int_minus)
  have "weighted_average rnd64 (non_failed reg ''img.png'')
      = rnd64 (rnd64 (rnd64 (3 / 2 ^ 1074 * (1/2))) / rnd64 (3 / 2 ^ 1074))"
    using w by (simp add: reg_def example_defs)
  also have "3 / 2 ^ 1074 * (1/2) = (3 / 2 ^ 1075 :: rat)" by simp
  also have "rnd64 (rnd64 (rnd64 (3 / 2 ^ 1075)) / rnd64 (3 / 2 ^ 1074)) = rnd64 (2/3)"
    unfolding p p' w by simp
  finally have avg: "weighted_average rnd64 (non_failed reg ''img.png'') = rnd64 (2/3)" .
  have "1/2 + 1/2 ^ 54 < (2/3 :: rat)" by simp
  then have above: "1/2 < rnd64 (2/3)" by (rule rnd64_gt_half)
  have "distinct (map fst reg)" by (simp add: reg_def)
  then have "detection_results rnd64 reg 1 ''img.png'' =
     \<lparr>res_is_ai_generated = 1/2 < weighted_average rnd64 (non_failed reg ''img.png''),
      res_confidence_score = weighted_average rnd64 (non_failed reg ''img.png''),
      res_processing_time = 1,
      method_results = run_methods reg ''img.png'' [],
      contributing_factors = significant rnd64 (non_failed reg ''img.png'')\<rparr>"
    by (rule detection_results_eq)
  then have "res_confidence_score (detection_results rnd64 reg 1 ''img.png'') = rnd64 (2/3)
      \<and> res_is_ai_generated (detection_results rnd64 reg 1 ''img.png'')"
    unfolding avg using above by simp
  then show ?thesis unfolding reg_def .
qed

text \<open>
  Claim C5, amended. When exactly one registered method succeeds, with a positive weight
  \<open>w\<close>, confidence \<open>c\<close> and any verdict of its own, the score is the float quotient
  of the float product \<open>w * c\<close> by \<open>w\<close>, whichever method it is, and the verdict is
  true exactly when the score is above 0.5. In exact arithmetic the weight cancels: the
  score is \<open>c\<close> and the verdict is \<open>c > 0.5\<close>. In binary64 the verdict is still
  \<open>c > 0.5\<close>, for every float \<open>c\<close> and every float weight of at least
  \<open>2 powi (- 1021)\<close>, as the engine's weights are: the two roundings never carry the
  quotient across 0.5. The score is \<open>c\<close> up to these two roundings: it differs from
  \<open>c\<close> by at most \<open>c / 2 ^ 51\<close>, when \<open>c\<close> and \<open>w * c\<close> are neither below the
  normal range nor above \<open>2 ^ 1023\<close> (so that no operation underflows or overflows).
\<close>

theorem single_success:
  assumes "distinct (map fst detection_methods)"
    and "(n, f, w) \<in> set detection_methods"
    and "0 < rnd w"
    and "f image_path = Inr r" and "error r = None"
    and "\<forall>(n', f', w') \<in> set detection_methods.
           n' \<noteq> n \<longrightarrow> error (run_method f' image_path) \<noteq> None"
    and "store_accepts update_detection_metadata metadata_id"
  shows "\<exists>res. detect rnd detection_methods update_detection_metadata elapsed image_path metadata_id
                 = Inr res
           \<and> res_confidence_score res = rnd (rnd (rnd (w * confidence_score r)) / rnd w)
           \<and> res_is_ai_generated res = (1/2 < res_confidence_score res)
           \<and> ((\<forall>x. rnd x = x) \<longrightarrow>
                res_confidence_score res = confidence_score r
                \<and> res_is_ai_generated res = (1/2 < confidence_score r))
           \<and> (rnd = rnd64 \<and> finite64 w \<and> 2 powi (- 1021) \<le> w
                \<and> finite64 (confidence_score r) \<longrightarrow>
                res_is_ai_generated res = (1/2 < confidence_score r))
           \<and> (rnd = rnd64 \<and> finite64 w
                \<and> 2 powi (- 1021) \<le> confidence_score r \<and> confidence_score r \<le> 2 ^ 1023
                \<and> 2 powi (- 1022) \<le> w * confidence_score r
                \<and> w * confidence_score r \<le> 2 ^ 1023 \<longrightarrow>
                \<bar>res_confidence_score res - confidence_score r\<bar> \<le> confidence_score r / 2 ^ 51)"
proof -
  have run: "run_method f image_path = r" using assms(4) by (simp add: run_method_def)
  have "non_failed detection_methods image_path = [(n, w, r)]"
    using non_failed_single [OF assms(1,2) _ assms(6)] assms(5) by (simp add: run)
  then have avg: "weighted_average rnd (non_failed detection_methods image_path)
      = rnd (rnd (rnd (w * confidence_score r)) / rnd w)"
    using assms(3)
    by (simp add: weighted_average_def weighted_sum_def total_weight_def scores_def weights_def)
  have exact: "rnd (rnd (rnd (w * confidence_score r)) / rnd w) = confidence_score r"
    if "\<forall>x. rnd x = x"
    using that assms(3) by simp
  have threshold: "(1/2 < rnd (rnd (rnd (w * confidence_score r)) / rnd w))
        = (1/2 < confidence_score r)"
    if "rnd = rnd64" "finite64 w" "2 powi (- 1021) \<le> w" "finite64 (confidence_score r)"
    unfolding that(1) using that(2-) by (intro verdict_cancel) (simp_all add: finite64_def)
  have close: "\<bar>rnd (rnd (rnd (w * confidence_score r)) / rnd w) - confidence_score r\<bar>
        \<le> confidence_score r / 2 ^ 51"
    if "rnd = rnd64" "finite64 w" "2 powi (- 1021) \<le> confidence_score r"
      "2 powi (- 1022) \<le> w * confidence_score r"
  proof -
    have "0 < w" "rnd64 w = w" using assms(3) that(1,2) by (simp_all add: finite64_def)
    then show ?thesis unfolding that(1) using that(3-) by (intro cancel_error)
  qed
  show ?thesis
    using detect_returns [OF assms(7), of rnd detection_methods elapsed image_path]
      exact threshold close
    by (simp add: detection_results_eq [OF assms(1)] avg)
qed

text \<open>
  Exact arithmetic: \<^verbatim>\<open>vit_model\<close> alone succeeds, with confidence 0.85; the score is
  0.85. Binary64, \<^verbatim>\<open>metadata_analysis\<close> alone succeeding: with the confidence 0.11 the
  score is the float next above, within the bound, and the verdict is false; with the
  confidence 0.5000000000000001, the float next above 0.5, the score is that float and
  the verdict is true.
\<close>

theorem single_success_witness:
  "(\<exists>res. detect (\<lambda>x. x)
            (register_detection_methods (\<lambda>x. x) (raises ''no exif'') (raises ''no file'')
               (raises ''no file'') (raises ''no file'') (reports False (85/100))
               (raises ''no model''))
            accepting_store 2 ''img.png'' (Some ''65a0'') = Inr res
         \<and> res_confidence_score res = 85/100 \<and> res_is_ai_generated res)
   \<and> (\<exists>res. detect rnd64
            (register_detection_methods rnd64 (reports False (rnd64 (11/100)))
               (raises ''no file'') (raises ''no file'') (raises ''no file'')
               (raises ''no model'') (raises ''no model''))
            accepting_store 2 ''img.png'' (Some ''65a0'') = Inr res
         \<and> res_confidence_score res = 3963167672086037 / 36028797018963968
         \<and> \<bar>res_confidence_score res - rnd64 (11/100)\<bar> \<le> rnd64 (11/100) / 2 ^ 51
         \<and> \<not> res_is_ai_generated res)
   \<and> (\<exists>res. detect rnd64
            (register_detection_methods rnd64 (reports False (1/2 + 1/2 ^ 53))
               (raises ''no file'') (raises ''no file'') (raises ''no file'')
               (raises ''no model'') (raises ''no model''))
            accepting_store 2 ''img.png'' (Some ''65a0'') = Inr res
         \<and> res_confidence_score res = 1/2 + 1/2 ^ 53
         \<and> res_is_ai_generated res)"
proof (intro conjI)
  let ?reg = "register_detection_methods (\<lambda>x. x) (raises ''no exif'') (raises ''no file'')
               (raises ''no file'') (raises ''no file'') (reports False (85/100))
               (raises ''no model'')"
  have mem: "(''vit_model'', reports False (85/100), 15/100) \<in> set ?reg"
    by (simp add: register_detection_methods_def)
  have ok: "reports False (85/100) ''img.png''
      = Inr \<lparr>is_ai_generated = False, confidence_score = 85/100, error = None,
             anomalies = None, error_level_score = None, ela_image_path = None,
             pattern_score = None, smoothness_score = None, processing_time = None\<rparr>"
    by (simp add: reports_def)
  have others: "\<forall>(n', f', w') \<in> set ?reg.
      n' \<noteq> ''vit_model'' \<longrightarrow> error (run_method f' ''img.png'') \<noteq> None"
    by (simp add: register_detection_methods_def run_method_def raises_def failed_result_def)
  from single_success [where rnd = "\<lambda>x. x" and elapsed = 2 and metadata_id = "Some ''65a0''",
      OF default_names mem _ ok _ others accepting_store_accepts]
  show "\<exists>res. detect (\<lambda>x. x) ?reg accepting_store 2 ''img.png'' (Some ''65a0'') = Inr res
         \<and> res_confidence_score res = 85/100 \<and> res_is_ai_generated res"
    by auto
next
  let ?reg = "register_detection_methods rnd64 (reports False (rnd64 (11/100)))
               (raises ''no file'') (raises ''no file'') (raises ''no file'')
               (raises ''no model'') (raises ''no model'')"
  let ?r = "\<lparr>is_ai_generated = False, confidence_score = rnd64 (11/100), error = None,
             anomalies = None, error_level_score = None, ela_image_path = None,
             pattern_score = None, smoothness_score = None, processing_time = None\<rparr>"
  have mem: "(''metadata_analysis'', reports False (rnd64 (11/100)), rnd64 (15/100)) \<in> set ?reg"
    by (simp add: register_detection_methods_def)
  have ok: "reports False (rnd64 (11/100)) ''img.png'' = Inr ?r"
    by (simp add: reports_def)
  have others: "\<forall>(n', f', w') \<in> set ?reg.
      n' \<noteq> ''metadata_analysis'' \<longrightarrow> error (run_method f' ''img.png'') \<noteq> None"
    by (simp add: register_detection_methods_def run_method_def raises_def failed_result_def)
  have pos: "0 < rnd64 (rnd64 (15/100))" by (simp add: b64)
  have float: "finite64 (confidence_score ?r)"
    by (simp add: finite64_def rnd64_idem) (simp add: b64)
  have range: "finite64 (rnd64 (15/100))" "2 powi (- 1021) \<le> rnd64 (15/100)"
      "2 powi (- 1021) \<le> confidence_score ?r" "confidence_score ?r \<le> 2 ^ 1023"
      "2 powi (- 1022) \<le> rnd64 (15/100) * confidence_score ?r"
      "rnd64 (15/100) * confidence_score ?r \<le> 2 ^ 1023"
    by (simp_all add: finite64_def b64 power_int_minus)
  have score: "rnd64 (rnd64 (rnd64 (rnd64 (15/100) * confidence_score ?r)) / rnd64 (rnd64 (15/100)))
      = 3963167672086037 / 36028797018963968"
    by (simp add: b64)
  have low: "\<not> 1/2 < confidence_score ?r" by (simp add: b64)
  from single_success [where rnd = rnd64 and elapsed = 2 and metadata_id = "Some ''65a0''",
      OF default_names mem pos ok _ others accepting_store_accepts]
  obtain res where res: "detect rnd64 ?reg accepting_store 2 ''img.png'' (Some ''65a0'') = Inr res"
      "res_confidence_score res
         = rnd64 (rnd64 (rnd64 (rnd64 (15/100) * confidence_score ?r)) / rnd64 (rnd64 (15/100)))"
      "res_is_ai_generated res = (1/2 < confidence_score ?r)"
      "\<bar>res_confidence_score res - confidence_score ?r\<bar> \<le> confidence_score ?r / 2 ^ 51"
    using float range by auto
  then show "\<exists>res. detect rnd64 ?reg accepting_store 2 ''img.png'' (Some ''65a0'') = Inr res
         \<and> res_confidence_score res = 3963167672086037 / 36028797018963968
         \<and> \<bar>res_confidence_score res - rnd64 (11/100)\<bar> \<le> rnd64 (11/100) / 2 ^ 51
         \<and> \<not> res_is_ai_generated res"
    unfolding score using low by (intro exI [of _ res]) simp
next
  let ?reg = "register_detection_methods rnd64 (reports False (1/2 + 1/2 ^ 53))
               (raises ''no file'') (raises ''no file'') (raises ''no file'')
               (raises ''no model'') (raises ''no model'')"
  let ?r = "\<lparr>is_ai_generated = False, confidence_score = 1/2 + 1/2 ^ 53, error = None,
             anomalies = None, error_level_score = None, ela_image_path = None,
             pattern_score = None, smoothness_score = None, processing_time = None\<rparr>"
  have mem: "(''metadata_analysis'', reports False (1/2 + 1/2 ^ 53), rnd64 (15/100)) \<in> set ?reg"
    by (simp add: register_detection_methods_def)
  have ok: "reports False (1/2 + 1/2 ^ 53) ''img.png'' = Inr ?r"
    by (simp add: reports_def)
  have others: "\<forall>(n', f', w') \<in> set ?reg.
      n' \<noteq> ''metadata_analysis'' \<longrightarrow> error (run_method f' ''img.png'') \<noteq> None"
    by (simp add: register_detection_methods_def run_method_def raises_def failed_result_def)
  have pos: "0 < rnd64 (rnd64 (15/100))" by (simp add: b64)
  have range: "finite64 (rnd64 (15/100))" "2 powi (- 1021) \<le> rnd64 (15/100)"
    by (simp_all add: finite64_def b64 power_int_minus)
  have c: "finite64 (confidence_score ?r)" "1/2 < confidence_score ?r"
    using rnd64_above_half by (simp_all add: finite64_def)
  have score: "rnd64 (rnd64 (rnd64 (rnd64 (15/100) * confidence_score ?r)) / rnd64 (rnd64 (15/100)))
      = 1/2 + 1/2 ^ 53"
    by (simp add: b64)
  from single_success [where rnd = rnd64 and elapsed = 2 and metadata_id = "Some ''65a0''",
      OF default_names mem pos ok _ others accepting_store_accepts]
  obtain res where "detect rnd64 ?reg accepting_store 2 ''img.png'' (Some ''65a0'') = Inr res"
      "res_confidence_score res
         = rnd64 (rnd64 (rnd64 (rnd64 (15/100) * confidence_score ?r)) / rnd64 (rnd64 (15/100)))"
      "res_is_ai_generated res = (1/2 < confidence_score ?r)"
    using range c(1) by auto
  then show "\<exists>res. detect rnd64 ?reg accepting_store 2 ''img.png'' (Some ''65a0'') = Inr res
         \<and> res_confidence_score res = 1/2 + 1/2 ^ 53
         \<and> res_is_ai_generated res"
    unfolding score using c(2) by (intro exI [of _ res]) simp
qed

section \<open>Registration order\<close>

lemma non_failed_mset:
  assumes "mset reg' = mset reg"
  shows "mset (non_failed reg' image_path) = mset (non_failed reg image_path)"
proof -
  have "mset (non_failed xs image_path)
      = filter_mset (\<lambda>(n, w, r). error r = None)
          (image_mset (\<lambda>(n, f, w). (n, w, run_method f image_path)) (mset xs))" for xs
    by (simp add: non_failed_def outcomes_def)
  then show ?thesis using assms by simp
qed

lemma default_names_rev:
  "distinct (map fst (rev (register_detection_methods rnd f1 f2 f3 f4 f5 f6)))"
  by (simp add: register_detection_methods_def)

lemma sum_list_mset_cong:
  fixes g :: "'a \<Rightarrow> rat"
  shows "mset xs = mset ys \<Longrightarrow> sum_list (map g xs) = sum_list (map g ys)"
  by (metis mset_map sum_mset_sum_list)

lemma weighted_average_exact:
  "weighted_average (\<lambda>x. x) xs =
     (if 0 < (\<Sum>(n, w, r)\<leftarrow>xs. w)
      then (\<Sum>(n, w, r)\<leftarrow>xs. w * confidence_score r) / (\<Sum>(n, w, r)\<leftarrow>xs. w) else 0)"
  by (simp add: weighted_average_def weighted_sum_exact total_weight_exact scores_def
        weights_def comp_def split_def)

lemma weighted_average_exact_mset:
  "mset xs = mset ys \<Longrightarrow> weighted_average (\<lambda>x. x) xs = weighted_average (\<lambda>x. x) ys"
  unfolding weighted_average_exact
  using sum_list_mset_cong [of xs ys "\<lambda>(n, w, r). w"]
    sum_list_mset_cong [of xs ys "\<lambda>(n, w, r). w * confidence_score r"]
  by simp

text \<open>
  Claim C7, as the specification states it, fails in binary64: float addition is not
  associative. \<^verbatim>\<open>metadata_analysis\<close> reports 0.25, \<^verbatim>\<open>ela_analysis\<close> 0.8 and
  \<^verbatim>\<open>texture_analysis\<close> 0.35, the other three methods raise. In the order of
  \<^verbatim>\<open>register_detection_methods\<close> the score is 0.5000000000000001 and the verdict is
  true; with the same six entries registered in the reverse order the score is 0.5 and
  the verdict is false.
\<close>

theorem registration_order_counterexample:
  "detect rnd64
     (register_detection_methods rnd64 (reports False (rnd64 (25/100)))
        (reports True (rnd64 (8/10))) (raises ''no file'') (reports False (rnd64 (35/100)))
        (raises ''no model'') (raises ''no model''))
     accepting_store 1 ''img.png'' None
   = Inr (detection_results rnd64
       (register_detection_methods rnd64 (reports False (rnd64 (25/100)))
          (reports True (rnd64 (8/10))) (raises ''no file'') (reports False (rnd64 (35/100)))
          (raises ''no model'') (raises ''no model''))
       1 ''img.png'')
   \<and> detect rnd64
     (rev (register_detection_methods rnd64 (reports False (rnd64 (25/100)))
        (reports True (rnd64 (8/10))) (raises ''no file'') (reports False (rnd64 (35/100)))
        (raises ''no model'') (raises ''no model'')))
     accepting_store 1 ''img.png'' None
   = Inr (detection_results rnd64
       (rev (register_detection_methods rnd64 (reports False (rnd64 (25/100)))
          (reports True (rnd64 (8/10))) (raises ''no file'') (reports False (rnd64 (35/100)))
          (raises ''no model'') (raises ''no model'')))
       1 ''img.png'')
   \<and> res_confidence_score (detection_results rnd64
       (register_detection_methods rnd64 (reports False (rnd64 (25/100)))
          (reports True (rnd64 (8/10))) (raises ''no file'') (reports False (rnd64 (35/100)))
          (raises ''no model'') (raises ''no model''))
       1 ''img.png'')
     = 4503599627370497 / 9007199254740992
   \<and> res_is_ai_generated (detection_results rnd64
       (register_detection_methods rnd64 (reports False (rnd64 (25/100)))
          (reports True (rnd64 (8/10))) (raises ''no file'') (reports False (rnd64 (35/100)))
          (raises ''no model'') (raises ''no model''))
       1 ''img.png'')
   \<and> res_confidence_score (detection_results rnd64
       (rev (register_detection_methods rnd64 (reports False (rnd64 (25/100)))
          (reports True (rnd64 (8/10))) (raises ''no file'') (reports False (rnd64 (35/100)))
          (raises ''no model'') (raises ''no model'')))
       1 ''img.png'')
     = 1 / 2
   \<and> \<not> res_is_ai_generated (detection_results rnd64
       (rev (register_detection_methods rnd64 (reports False (rnd64 (25/100)))
          (reports True (rnd64 (8/10))) (raises ''no file'') (reports False (rnd64 (35/100)))
          (raises ''no model'') (raises ''no model'')))
       1 ''img.png'')"
  by (simp add: detect_returns accepting_store_accepts detection_results_eq default_names
        default_names_rev)
     (simp add: example_defs b64)

text \<open>
  Claim C7, amended. In exact arithmetic the order of registration does not change the
  result: for two registries with the same entries (names distinct), \<^verbatim>\<open>detect\<close> returns
  the same confidence score and the same verdict. In binary64 the two scores are the
  same sums added in different orders, and can differ by the rounding of the additions.
\<close>

theorem exact_score_order_independent:
  assumes "mset detection_methods' = mset detection_methods"
    and "distinct (map fst detection_methods)"
    and "detect (\<lambda>x. x) detection_methods update_detection_metadata elapsed image_path
           metadata_id = Inr res"
    and "detect (\<lambda>x. x) detection_methods' update_detection_metadata elapsed image_path
           metadata_id = Inr res'"
  shows "res_confidence_score res' = res_confidence_score res
       \<and> res_is_ai_generated res' = res_is_ai_generated res"
proof -
  have "mset (map fst detection_methods') = mset (map fst detection_methods)"
    using assms(1) by (metis mset_map)
  then have names: "distinct (map fst detection_methods')"
    using assms(2) by (metis mset_eq_imp_distinct_iff)
  have "weighted_average (\<lambda>x. x) (non_failed detection_methods' image_path)
      = weighted_average (\<lambda>x. x) (non_failed detection_methods image_path)"
    using assms(1) by (intro weighted_average_exact_mset non_failed_mset)
  then show ?thesis
    using detect_Inr [OF assms(3)] detect_Inr [OF assms(4)]
    by (simp add: detection_results_eq [OF assms(2)] detection_results_eq [OF names])
qed

text \<open>The example of the counterexample, in exact arithmetic: the score is 0.5 in both orders.\<close>

theorem exact_score_order_independent_witness:
  "res_confidence_score (detection_results (\<lambda>x. x)
       (rev (register_detection_methods (\<lambda>x. x) (reports False (25/100))
          (reports True (8/10)) (raises ''no file'') (reports False (35/100))
          (raises ''no model'') (raises ''no model'')))
       1 ''img.png'')
   = res_confidence_score (detection_results (\<lambda>x. x)
       (register_detection_methods (\<lambda>x. x) (reports False (25/100))
          (reports True (8/10)) (raises ''no file'') (reports False (35/100))
          (raises ''no model'') (raises ''no model''))
       1 ''img.png'')
   \<and> res_is_ai_generated (detection_results (\<lambda>x. x)
       (rev (register_detection_methods (\<lambda>x. x) (reports False (25/100))
          (reports True (8/10)) (raises ''no file'') (reports False (35/100))
          (raises ''no model'') (raises ''no model'')))
       1 ''img.png'')
   = res_is_ai_generated (detection_results (\<lambda>x. x)
       (register_detection_methods (\<lambda>x. x) (reports False (25/100))
          (reports True (8/10)) (raises ''no file'') (reports False (35/100))
          (raises ''no model'') (raises ''no model''))
       1 ''img.png'')"
proof -
  let ?reg = "register_detection_methods (\<lambda>x. x) (reports False (25/100))
          (reports True (8/10)) (raises ''no file'') (reports False (35/100))
          (raises ''no model'') (raises ''no model'')"
  have st: "store_accepts accepting_store None" by (rule accepting_store_accepts)
  show ?thesis
    by (rule exact_score_order_independent [where detection_methods = ?reg
          and update_detection_metadata = accepting_store and metadata_id = None])
       (simp_all add: default_names detect_returns [OF st])
qed

section \<open>Summary\<close>

lemma render_results:
  "render fmt rnd (py_of_results res) =
     (if res_is_ai_generated res then
        (if contributing_factors res = [] then
           Inr (''This image is likely AI-generated with '' @ fmt (res_confidence_score res)
                  @ '' confidence. '')
         else
           (case describe_factors fmt rnd (map py_of_factor (contributing_factors res)) [] of
              Inl e \<Rightarrow> Inl e
            | Inr factor_descriptions \<Rightarrow>
                Inr (''This image is likely AI-generated with '' @ fmt (res_confidence_score res)
                       @ '' confidence. '' @ ''Key indicators include: ''
                       @ join '', '' factor_descriptions @ ''.'')))
      else
        Inr (''This image appears to be authentic with ''
               @ fmt (rnd (1 - res_confidence_score res)) @ '' confidence. ''
               @ ''No significant indicators of AI generation were detected.''))"
  by (simp add: render_def py_of_results_def split: sum.splits)

text \<open>
  Claim C8. For a result of the engine whose verdict is false, the summary is the
  sentence that the image appears to be authentic, with \<open>1 - confidence_score\<close> (a float
  subtraction) formatted as the percentage, followed by the fixed sentence that no
  indicator was detected. And for every argument on which the body of the \<^verbatim>\<open>try\<close> raises
  (\<open>render\<close> returns \<open>Inl\<close>), \<^verbatim>\<open>generate_result_summary\<close> returns the fixed fallback
  sentence.
\<close>

theorem summary_authentic_or_fallback:
  "(\<not> res_is_ai_generated res \<longrightarrow>
      generate_result_summary fmt rnd (py_of_results res) =
        ''This image appears to be authentic with ''
        @ fmt (rnd (1 - res_confidence_score res)) @ '' confidence. ''
        @ ''No significant indicators of AI generation were detected.'')
   \<and> (render fmt rnd v = Inl e \<longrightarrow>
        generate_result_summary fmt rnd v = ''Detection completed, but summary generation failed.'')"
  by (simp add: generate_result_summary_def render_results)

text \<open>
  The result of the two succeeding methods above (score 0.3999999999999999), with the format \<^verbatim>\<open>.1%\<close>
  in binary64; and a dictionary without the key \<^verbatim>\<open>confidence_score\<close>, on which the
  body raises \<^verbatim>\<open>KeyError\<close>.
\<close>

theorem summary_authentic_or_fallback_witness:
  "generate_result_summary (format_percent rnd64) rnd64
     (py_of_results (detection_results rnd64
        (register_detection_methods rnd64 (raises ''no exif'') (reports True (rnd64 (7/10)))
           (reports False (rnd64 (1/10))) (raises ''no file'') (raises ''no model'')
           (raises ''no model'')) 1 ''img.png''))
   = ''This image appears to be authentic with 60.0% confidence. No significant indicators of AI generation were detected.''
   \<and> render (format_percent rnd64) rnd64 (PDict [(''is_ai_generated'', PBool True)])
       = Inl (KeyError ''confidence_score'')
   \<and> generate_result_summary (format_percent rnd64) rnd64 (PDict [(''is_ai_generated'', PBool True)])
       = ''Detection completed, but summary generation failed.''"
proof -
  let ?res = "detection_results rnd64
        (register_detection_methods rnd64 (raises ''no exif'') (reports True (rnd64 (7/10)))
           (reports False (rnd64 (1/10))) (raises ''no file'') (raises ''no model'')
           (raises ''no model'')) 1 ''img.png''"
  have score: "res_confidence_score ?res = 900719925474099 / 2251799813685248"
    by (simp add: detection_results_eq default_names) (simp add: example_defs b64)
  have verdict: "\<not> res_is_ai_generated ?res"
    by (simp add: detection_results_eq default_names) (simp add: example_defs b64)
  have pct: "format_percent rnd64 (rnd64 (1 - res_confidence_score ?res)) = ''60.0%''"
    unfolding score by (simp add: format_percent_def b64 show_nat.simps digit_def)
  have raised: "render (format_percent rnd64) rnd64 (PDict [(''is_ai_generated'', PBool True)])
       = Inl (KeyError ''confidence_score'')"
    by (simp add: render_def)
  from summary_authentic_or_fallback [of ?res "format_percent rnd64" rnd64
      "PDict [(''is_ai_generated'', PBool True)]" "KeyError ''confidence_score''"]
  show ?thesis using verdict raised by (simp add: pct)
qed

section \<open>Failed methods in the metadata projection\<close>

lemma detect_store:
  "detect rnd detection_methods update_detection_metadata elapsed image_path (Some mid) = Inr res \<Longrightarrow>
   mid \<noteq> [] \<Longrightarrow> \<exists>modified. update_detection_metadata mid (update_data res) = Inr modified"
  by (auto simp: detect_def update_metadata_def Let_def split: sum.splits)

text \<open>
  Claim C9. When the call of a registered method raises, the entry that \<^verbatim>\<open>detect\<close>
  stores for it in \<^verbatim>\<open>method_results\<close> has the verdict \<open>False\<close>, the confidence 0 and the
  text of the exception under \<^verbatim>\<open>error\<close>. \<^verbatim>\<open>update_metadata\<close> copies these two values:
  for the four analysis methods into \<^verbatim>\<open>is_suspicious\<close> and \<^verbatim>\<open>confidence\<close> of the
  method's section (lines 250 to 284), with the defaults of the keys that are absent;
  for the two model methods into \<^verbatim>\<open>is_ai_generated\<close> and \<^verbatim>\<open>confidence\<close> of the method's
  entry of \<^verbatim>\<open>model_results\<close>. When an update is requested, this document is the one
  the store received.
\<close>

theorem failed_method_placeholder:
  assumes "distinct (map fst detection_methods)"
    and "(n, f, w) \<in> set detection_methods"
    and "f image_path = Inl msg"
    and "detect rnd detection_methods update_detection_metadata elapsed image_path metadata_id
           = Inr res"
  shows "map_of (method_results res) n
           = Some \<lparr>is_ai_generated = False, confidence_score = 0, error = Some msg,
                   anomalies = None, error_level_score = None, ela_image_path = None,
                   pattern_score = None, smoothness_score = None, processing_time = None\<rparr>
       \<and> (n = ''metadata_analysis'' \<longrightarrow>
            exif_data (update_data res)
              = Some \<lparr>exif_is_suspicious = False, exif_confidence = 0, exif_anomalies = []\<rparr>)
       \<and> (n = ''ela_analysis'' \<longrightarrow>
            pixel_analysis_ela_results (update_data res)
              = Some \<lparr>ela_error_level_score = 0, ela_is_suspicious = False, ela_confidence = 0,
                      ela_path = Some []\<rparr>)
       \<and> (n = ''prnu_analysis'' \<longrightarrow>
            pixel_analysis_prnu_results (update_data res)
              = Some \<lparr>prnu_pattern_score = 0, prnu_is_suspicious = False, prnu_confidence = 0\<rparr>)
       \<and> (n = ''texture_analysis'' \<longrightarrow>
            pixel_analysis_texture_analysis (update_data res)
              = Some \<lparr>texture_smoothness_score = 0, texture_is_suspicious = False,
                      texture_confidence = 0\<rparr>)
       \<and> (n = ''vit_model'' \<longrightarrow>
            (\<exists>ms. model_results (update_data res) = Some ms
                \<and> \<lparr>model_name = ''Vision Transformer'', model_version = ''1.0'',
                    model_is_ai_generated = False, model_confidence = 0,
                    model_processing_time = 0\<rparr> \<in> set ms))
       \<and> (n = ''resnet_model'' \<longrightarrow>
            (\<exists>ms. model_results (update_data res) = Some ms
                \<and> \<lparr>model_name = ''ResNet50 NoDown'', model_version = ''1.0'',
                    model_is_ai_generated = False, model_confidence = 0,
                    model_processing_time = 0\<rparr> \<in> set ms))
       \<and> (\<forall>mid. metadata_id = Some mid \<and> mid \<noteq> [] \<longrightarrow>
            (\<exists>modified. update_detection_metadata mid (update_data res) = Inr modified))"
proof -
  have res: "res = detection_results rnd detection_methods elapsed image_path"
    using assms(4) by (rule detect_Inr)
  have "run_method f image_path = failed_result msg"
    using assms(3) by (simp add: run_method_def)
  then have entry: "map_of (method_results res) n = Some (failed_result msg)"
    using run_methods_lookup [OF assms(1,2), of image_path "[]"]
    by (simp add: res detection_results_eq [OF assms(1)])
  have store: "\<forall>mid. metadata_id = Some mid \<and> mid \<noteq> [] \<longrightarrow>
            (\<exists>modified. update_detection_metadata mid (update_data res) = Inr modified)"
    using assms(4) by (auto dest: detect_store)
  have vit: "n = ''vit_model'' \<Longrightarrow>
            (\<exists>ms. model_results (update_data res) = Some ms
                \<and> \<lparr>model_name = ''Vision Transformer'', model_version = ''1.0'',
                    model_is_ai_generated = False, model_confidence = 0,
                    model_processing_time = 0\<rparr> \<in> set ms)"
    using entry
    by (simp add: update_data_def model_entries_def failed_result_def get_default_def Let_def)
  have resnet: "n = ''resnet_model'' \<Longrightarrow>
            (\<exists>ms. model_results (update_data res) = Some ms
                \<and> \<lparr>model_name = ''ResNet50 NoDown'', model_version = ''1.0'',
                    model_is_ai_generated = False, model_confidence = 0,
                    model_processing_time = 0\<rparr> \<in> set ms)"
    using entry
    by (simp add: update_data_def model_entries_def failed_result_def get_default_def Let_def)
  have sections:
    "n = ''metadata_analysis'' \<longrightarrow>
       exif_data (update_data res)
         = Some \<lparr>exif_is_suspicious = False, exif_confidence = 0, exif_anomalies = []\<rparr>"
    "n = ''ela_analysis'' \<longrightarrow>
       pixel_analysis_ela_results (update_data res)
         = Some \<lparr>ela_error_level_score = 0, ela_is_suspicious = False, ela_confidence = 0,
                 ela_path = Some []\<rparr>"
    "n = ''prnu_analysis'' \<longrightarrow>
       pixel_analysis_prnu_results (update_data res)
         = Some \<lparr>prnu_pattern_score = 0, prnu_is_suspicious = False, prnu_confidence = 0\<rparr>"
    "n = ''texture_analysis'' \<longrightarrow>
       pixel_analysis_texture_analysis (update_data res)
         = Some \<lparr>texture_smoothness_score = 0, texture_is_suspicious = False,
                 texture_confidence = 0\<rparr>"
    using entry by (auto simp: update_data_def failed_result_def get_default_def Let_def)
  show ?thesis
    using entry sections vit resnet store by (simp add: failed_result_def)
qed

text \<open>
  \<^verbatim>\<open>metadata_analysis\<close> raises, the store is asked to update and accepts: the section
  \<^verbatim>\<open>exif_data\<close> of the document it receives holds \<open>False\<close> and 0.
\<close>

theorem failed_method_placeholder_witness:
  "map_of (method_results (detection_results rnd64
       (register_detection_methods rnd64 (raises ''no exif'') (reports True (3/4))
          (reports True (3/4)) (reports False (1/4)) (reports True (7/8)) (reports True (7/8)))
       2 ''img.png'')) ''metadata_analysis''
     = Some \<lparr>is_ai_generated = False, confidence_score = 0, error = Some ''no exif'',
             anomalies = None, error_level_score = None, ela_image_path = None,
             pattern_score = None, smoothness_score = None, processing_time = None\<rparr>
   \<and> exif_data (update_data (detection_results rnd64
       (register_detection_methods rnd64 (raises ''no exif'') (reports True (3/4))
          (reports True (3/4)) (reports False (1/4)) (reports True (7/8)) (reports True (7/8)))
       2 ''img.png''))
     = Some \<lparr>exif_is_suspicious = False, exif_confidence = 0, exif_anomalies = []\<rparr>"
proof -
  let ?reg = "register_detection_methods rnd64 (raises ''no exif'') (reports True (3/4))
          (reports True (3/4)) (reports False (1/4)) (reports True (7/8)) (reports True (7/8))"
  have mem: "(''metadata_analysis'', raises ''no exif'', rnd64 (15/100)) \<in> set ?reg"
    by (simp add: register_detection_methods_def)
  have raised: "raises ''no exif'' ''img.png'' = Inl ''no exif''"
    by (simp add: raises_def)
  have st: "store_accepts accepting_store (Some ''65a0'')"
    by (rule accepting_store_accepts)
  have "detect rnd64 ?reg accepting_store 2 ''img.png'' (Some ''65a0'')
          = Inr (detection_results rnd64 ?reg 2 ''img.png'')"
    using st by (rule detect_returns)
  from failed_method_placeholder [OF default_names mem raised this]
  show ?thesis by simp
qed

section \<open>A true verdict without contributing factors\<close>

text \<open>
  Claim C10. A result can have a true verdict and no contributing factor: with the six
  registered methods in binary64, \<^verbatim>\<open>vit_model\<close> alone succeeds and reports an
  AI-generated image with confidence 0.55; the score is above 0.5 and no confidence is
  above 0.6. And for every result with a true verdict and no contributing factor the
  summary is the sentence "likely AI-generated" alone, with the score as the percentage
  and no clause of indicators.
\<close>

theorem verdict_true_without_factors:
  "(\<exists>f1 f2 f3 f4 f5 f6 image_path res.
       detect rnd64 (register_detection_methods rnd64 f1 f2 f3 f4 f5 f6)
         accepting_store elapsed image_path None = Inr res
       \<and> res_is_ai_generated res \<and> contributing_factors res = [])
   \<and> (\<forall>res. res_is_ai_generated res \<and> contributing_factors res = [] \<longrightarrow>
         generate_result_summary fmt rnd (py_of_results res) =
           ''This image is likely AI-generated with '' @ fmt (res_confidence_score res)
           @ '' confidence. '')"
proof
  let ?reg = "register_detection_methods rnd64 (raises ''no exif'') (raises ''no file'')
      (raises ''no file'') (raises ''no file'') (reports True (rnd64 (55/100)))
      (raises ''no model'')"
  have "detect rnd64 ?reg accepting_store elapsed ''img.png'' None
          = Inr (detection_results rnd64 ?reg elapsed ''img.png'')"
    by (simp add: detect_returns accepting_store_accepts)
  moreover have "res_is_ai_generated (detection_results rnd64 ?reg elapsed ''img.png'')"
    by (simp add: detection_results_eq default_names) (simp add: example_defs b64)
  moreover have "contributing_factors (detection_results rnd64 ?reg elapsed ''img.png'') = []"
    by (simp add: detection_results_eq default_names) (simp add: example_defs b64)
  ultimately show "\<exists>f1 f2 f3 f4 f5 f6 image_path res.
       detect rnd64 (register_detection_methods rnd64 f1 f2 f3 f4 f5 f6)
         accepting_store elapsed image_path None = Inr res
       \<and> res_is_ai_generated res \<and> contributing_factors res = []"
    by blast
next
  show "\<forall>res. res_is_ai_generated res \<and> contributing_factors res = [] \<longrightarrow>
         generate_result_summary fmt rnd (py_of_results res) =
           ''This image is likely AI-generated with '' @ fmt (res_confidence_score res)
           @ '' confidence. ''"
    by (simp add: generate_result_summary_def render_results)
qed

text \<open>The result of that example and its summary, with the format \<^verbatim>\<open>.1%\<close> in binary64.\<close>

theorem verdict_true_without_factors_witness:
  "res_is_ai_generated (detection_results rnd64
       (register_detection_methods rnd64 (raises ''no exif'') (raises ''no file'')
          (raises ''no file'') (raises ''no file'') (reports True (rnd64 (55/100)))
          (raises ''no model'')) 1 ''img.png'')
   \<and> contributing_factors (detection_results rnd64
       (register_detection_methods rnd64 (raises ''no exif'') (raises ''no file'')
          (raises ''no file'') (raises ''no file'') (reports True (rnd64 (55/100)))
          (raises ''no model'')) 1 ''img.png'') = []
   \<and> generate_result_summary (format_percent rnd64) rnd64
       (py_of_results (detection_results rnd64
          (register_detection_methods rnd64 (raises ''no exif'') (raises ''no file'')
             (raises ''no file'') (raises ''no file'') (reports True (rnd64 (55/100)))
             (raises ''no model'')) 1 ''img.png''))
     = ''This image is likely AI-generated with 55.0% confidence. ''"
proof -
  let ?res = "detection_results rnd64
       (register_detection_methods rnd64 (raises ''no exif'') (raises ''no file'')
          (raises ''no file'') (raises ''no file'') (reports True (rnd64 (55/100)))
          (raises ''no model'')) 1 ''img.png''"
  have score: "res_confidence_score ?res = 2476979795053773 / 4503599627370496"
    by (simp add: detection_results_eq default_names) (simp add: example_defs b64)
  have verdict: "res_is_ai_generated ?res"
    by (simp add: detection_results_eq default_names) (simp add: example_defs b64)
  have factors: "contributing_factors ?res = []"
    by (simp add: detection_results_eq default_names) (simp add: example_defs b64)
  have pct: "format_percent rnd64 (res_confidence_score ?res) = ''55.0%''"
    unfolding score by (simp add: format_percent_def b64 show_nat.simps digit_def)
  from verdict_true_without_factors [of 1 "format_percent rnd64" rnd64]
  have summary: "generate_result_summary (format_percent rnd64) rnd64 (py_of_results ?res) =
           ''This image is likely AI-generated with '' @ format_percent rnd64 (res_confidence_score ?res)
           @ '' confidence. ''"
    using verdict factors by blast
  show ?thesis unfolding summary pct using verdict factors by simp
qed

end
